theory Spec2Isabelle
  imports Main
begin

section \<open>Python strings\<close>

text \<open>
  A Python \<open>str\<close> is modelled as a \<open>string\<close>, one \<open>char\<close> per character; the
  generator's inputs (header names, C++ identifiers, configuration lines) are ASCII.
  The functions below are the \<open>str\<close> methods that \<open>pybinder/core.py\<close> calls.
\<close>

definition startswith :: "string \<Rightarrow> string \<Rightarrow> bool" where
  "startswith s p = (take (length p) s = p)"

definition endswith :: "string \<Rightarrow> string \<Rightarrow> bool" where
  "endswith s p = (length p \<le> length s \<and> drop (length s - length p) s = p)"

text \<open>\<open>sub in s\<close> for strings: \<open>sub\<close> occurs in \<open>s\<close> at some position.\<close>

fun contains :: "string \<Rightarrow> string \<Rightarrow> bool" where
  "contains [] sub = (sub = [])"
| "contains (c # cs) sub = (startswith (c # cs) sub \<or> contains cs sub)"



text \<open>\<open>s.strip(chars)\<close>: removes leading and trailing characters that occur in \<open>chars\<close>.\<close>

definition strip_chars :: "string \<Rightarrow> string \<Rightarrow> string" where
  "strip_chars s chars =
     rev (dropWhile (\<lambda>c. c \<in> set chars) (rev (dropWhile (\<lambda>c. c \<in> set chars) s)))"

text \<open>
  \<open>s.replace(old, new)\<close> replaces every non-overlapping occurrence, leftmost first. With an
  empty \<open>old\<close> Python inserts \<open>new\<close> before every character and at the end.
\<close>

function replace :: "string \<Rightarrow> string \<Rightarrow> string \<Rightarrow> string" where
  "replace [] old new = (if old = [] then new else [])"
| "replace (c # cs) old new =
     (if old = [] then new @ c # replace cs old new
      else if startswith (c # cs) old then new @ replace (drop (length old) (c # cs)) old new
      else c # replace cs old new)"
  by pat_completeness auto
termination
  by (relation "measure (\<lambda>(s, old, new). length s)") auto


text \<open>
  \<open>s.split(sep, maxsplit)\<close> for a non-empty separator: at most \<open>maxsplit\<close> cuts, leftmost
  first. The second argument accumulates the piece being read, reversed.
\<close>

fun str_split_max :: "nat \<Rightarrow> string \<Rightarrow> string \<Rightarrow> string \<Rightarrow> string list" where
  "str_split_max 0 acc s sep = [rev acc @ s]"
| "str_split_max (Suc n) acc [] sep = [rev acc]"
| "str_split_max (Suc n) acc (c # cs) sep =
     (if startswith (c # cs) sep
      then rev acc # str_split_max n [] (drop (length sep) (c # cs)) sep
      else str_split_max (Suc n) (c # acc) cs sep)"

text \<open>
  \<open>s.split(sep)\<close> without a limit: a string of length \<open>n\<close> has at most \<open>n\<close> occurrences
  of a non-empty separator, so \<open>n\<close> cuts are never exhausted.
\<close>

definition str_split :: "string \<Rightarrow> string \<Rightarrow> string list" where
  "str_split s sep = str_split_max (length s) [] s sep"

text \<open>\<open>sep.join(xs)\<close>.\<close>

fun join :: "string \<Rightarrow> string list \<Rightarrow> string" where
  "join sep [] = []"
| "join sep [x] = x"
| "join sep (x # y # ys) = x @ sep @ join sep (y # ys)"

text \<open>\<open>str(n)\<close> for a non-negative integer.\<close>

definition digit_char :: "nat \<Rightarrow> char" where
  "digit_char d = char_of (48 + d)"

fun str_nat :: "nat \<Rightarrow> string" where
  "str_nat n = (if n < 10 then [digit_char n] else str_nat (n div 10) @ [digit_char (n mod 10)])"

declare str_nat.simps [simp del]

definition upper_char :: "char \<Rightarrow> char" where
  "upper_char c = (let n = (of_char c :: nat) in if 97 \<le> n \<and> n \<le> 122 then char_of (n - 32) else c)"

definition upper :: "string \<Rightarrow> string" where
  "upper s = map upper_char s"

section \<open>Output emission\<close>

text \<open>
  The file system is a map from paths to file contents, the logger is the list of messages
  written to \<open>log.txt\<close>, and \<open>written\<close> lists the paths opened for writing, in order.
\<close>

record io_state =
  files :: "string \<rightharpoonup> string"
  logger :: "string list"
  written :: "string list"



section \<open>The generator's tables and the module registry\<close>

datatype CursorKind =
    ENUM_DECL | ENUM_CONSTANT_DECL | FUNCTION_DECL | CLASS_DECL | STRUCT_DECL | TYPEDEF_DECL
  | CXX_BASE_SPECIFIER | CONSTRUCTOR | DESTRUCTOR | CXX_METHOD | PARM_DECL | FIELD_DECL
  | TEMPLATE_REF | CLASS_TEMPLATE | FUNCTION_TEMPLATE | TEMPLATE_TYPE_PARAMETER
  | TEMPLATE_NON_TYPE_PARAMETER | USING_DECLARATION | TYPE_ALIAS_DECL | OVERLOADED_DECL_REF
  | CXX_ACCESS_SPEC_DECL | TYPE_REF | NAMESPACE | TRANSLATION_UNIT | NO_DECL_FOUND
  | MACRO_INSTANTIATION | OTHER_CURSOR_KIND

text \<open>
  \<open>class Module\<close>. The type \<open>'b\<close> is the type of binders; \<open>imports\<close> is a reserved word
  of the theory header, so the attributes carry the prefix \<open>mod_\<close>.
\<close>

record 'b Module =
  mod_name :: string
  mod_enums :: "'b list"
  mod_funcs :: "'b list"
  mod_types :: "'b list"
  mod_templates :: "'b list"
  mod_sorted_binders :: "'b list"
  mod_includes :: "string list"
  mod_imports :: "string list"

text \<open>\<open>Module.__init__\<close>.\<close>

definition new_Module :: "string \<Rightarrow> 'b Module" where
  "new_Module n = \<lparr>mod_name = n, mod_enums = [], mod_funcs = [], mod_types = [],
     mod_templates = [], mod_sorted_binders = [], mod_includes = [], mod_imports = []\<rparr>"

text \<open>
  \<open>class Generator\<close>: the class attributes (the rule tables and the registry \<open>_mods\<close>) and
  the instance attributes that \<open>process_config\<close> writes. A Python \<open>set\<close> that is only
  tested for membership is a set; a \<open>set\<close> or \<open>dict\<close> that the code iterates over is a
  list, in insertion order (\<open>_mods\<close> is an \<open>OrderedDict\<close>). A \<open>dict\<close> that is only
  looked up is a map.
\<close>

record 'b Generator =
  available_mods :: "string set"
  available_incs :: "string set"
  available_templates :: "string set"
  excluded_classes :: "string set"
  excluded_functions :: "string set"
  excluded_rtypes :: "string set"
  excluded_enums :: "string set"
  excluded_fnames :: "string set"
  excluded_mods :: "string set"
  excluded_typedefs :: "string set"
  excluded_fields :: "string set"
  excluded_headers :: "string set"
  excluded_namespaces :: "string set"
  nodelete :: "string set"
  nested_classes :: "string set"
  downcast_classes :: "string set"
  skipped :: "string set"
  immutable :: "string set"
  split :: "string set"
  opaque_types :: "string set"
  namespace :: "(string \<times> string list) list"
  common_includes :: "string list"
  excluded_bases :: "string \<rightharpoonup> string list"
  import_guards :: "string \<rightharpoonup> string list"
  plus_headers :: "string \<rightharpoonup> string list"
  minus_headers :: "string \<rightharpoonup> string list"
  python_names :: "string \<rightharpoonup> string"
  excluded_imports :: "string \<rightharpoonup> string list"
  call_guards :: "string \<rightharpoonup> string list"
  keep_alive :: "string \<rightharpoonup> string"
  before_type :: "string \<rightharpoonup> string list"
  after_type :: "string \<rightharpoonup> string list"
  patches :: "string \<rightharpoonup> string list list"
  return_policies :: "string \<rightharpoonup> string"
  before_module :: "string \<rightharpoonup> string list"
  to_bind :: "CursorKind set"
  sort_order :: "string \<rightharpoonup> (string \<times> int) list"
  mods :: "(string \<times> 'b Module) list"
  compiler_args :: "string \<rightharpoonup> string list"
  include_dirs :: "string list"

text \<open>The property \<open>Generator.modules\<close>: \<open>list(self._mods.values())\<close>.\<close>

definition modules :: "'b Generator \<Rightarrow> 'b Module list" where
  "modules g = map snd (mods g)"

text \<open>
  \<open>Generator.get_module(name)\<close>: \<open>None\<close> for a name that is not an available module,
  the registered module, or a new module that is registered under the name.
\<close>

definition get_module :: "'b Generator \<Rightarrow> string \<Rightarrow> 'b Module option \<times> 'b Generator" where
  "get_module g n =
     (if n \<notin> available_mods g then (None, g)
      else case map_of (mods g) n of
             Some m \<Rightarrow> (Some m, g)
           | None \<Rightarrow> (Some (new_Module n), g\<lparr>mods := mods g @ [(n, new_Module n)]\<rparr>))"

text \<open>\<open>Generator.get_namespace(name)\<close>: the first package whose module list has the name.\<close>

fun get_namespace_items :: "(string \<times> string list) list \<Rightarrow> string \<Rightarrow> string option" where
  "get_namespace_items [] n = None"
| "get_namespace_items ((ns, ms) # rest) n =
     (if n \<in> set ms then Some ns else get_namespace_items rest n)"

definition get_namespace :: "'b Generator \<Rightarrow> string \<Rightarrow> string option" where
  "get_namespace g n = get_namespace_items (namespace g) n"

text \<open>The names that occur in the import lists of the registered modules.\<close>

definition imported_names :: "'b Generator \<Rightarrow> string set" where
  "imported_names g = (\<Union>m \<in> set (modules g). set (mod_imports m))"

text \<open>
  The \<open>while stack:\<close> loop of \<open>Module.is_dependent\<close>. \<open>stack.pop(0)\<close> takes the head;
  \<open>get_module\<close> may register a module, so the generator is returned with the answer.
\<close>

function is_dependent_loop ::
  "'b Generator \<Rightarrow> string \<Rightarrow> string set \<Rightarrow> string list \<Rightarrow> bool \<times> 'b Generator" where
  "is_dependent_loop g other_name visited [] = (False, g)"
| "is_dependent_loop g other_name visited (n # stack) =
     (if n \<in> visited then is_dependent_loop g other_name visited stack
      else if n = other_name then (True, g)
      else case get_module g n of
             (None, g') \<Rightarrow> (False, g')
           | (Some m, g') \<Rightarrow>
               is_dependent_loop g' other_name (insert n visited) (mod_imports m @ stack))"
  by pat_completeness auto

lemma get_module_cases:
  assumes "get_module g n = (Some m, g')"
  shows "(map_of (mods g) n = Some m \<and> g' = g)
       \<or> (m = new_Module n \<and> g' = g\<lparr>mods := mods g @ [(n, new_Module n)]\<rparr>)"
proof (cases "n \<in> available_mods g")
  case False
  with assms show ?thesis by (simp add: get_module_def)
next
  case True
  show ?thesis
  proof (cases "map_of (mods g) n")
    case None
    with True assms show ?thesis by (clarsimp simp: get_module_def)
  next
    case (Some a)
    with True assms show ?thesis by (simp add: get_module_def)
  qed
qed


lemma imported_names_register:
  "imported_names (g\<lparr>mods := mods g @ [(n, new_Module n)]\<rparr>) = imported_names g"
  by (simp add: imported_names_def modules_def new_Module_def)

lemma map_of_imported_names:
  "map_of (mods g) n = Some m \<Longrightarrow> set (mod_imports m) \<subseteq> imported_names g"
proof
  fix x
  assume a: "map_of (mods g) n = Some m" and x: "x \<in> set (mod_imports m)"
  from a have "(n, m) \<in> set (mods g)"
    by (rule map_of_SomeD)
  then have "m \<in> set (modules g)"
    by (force simp: modules_def)
  with x show "x \<in> imported_names g"
    unfolding imported_names_def by blast
qed

lemma get_module_imports:
  assumes "get_module g n = (Some m, g')"
  shows "set (mod_imports m) \<subseteq> imported_names g" and "imported_names g' = imported_names g"
proof -
  show "set (mod_imports m) \<subseteq> imported_names g"
    using get_module_cases [OF assms]
    by (elim disjE conjE) (simp_all add: map_of_imported_names new_Module_def)
  show "imported_names g' = imported_names g"
    using get_module_cases [OF assms]
    by (elim disjE conjE) (simp_all add: imported_names_register)
qed

lemma finite_imported_names: "finite (imported_names g)"
  by (simp add: imported_names_def)

lemma is_dependent_loop_visited_measure:
  "n \<in> visited \<Longrightarrow>
     card ((imported_names g \<union> set stack) - visited)
       = card ((imported_names g \<union> set (n # stack)) - visited)"
proof -
  assume "n \<in> visited"
  then have "(imported_names g \<union> set stack) - visited
               = (imported_names g \<union> set (n # stack)) - visited"
    by auto
  then show ?thesis by simp
qed

lemma is_dependent_loop_push_measure:
  assumes "n \<notin> visited" and gm: "get_module g n = (Some m, g')"
  shows "card ((imported_names g' \<union> set (mod_imports m @ stack)) - insert n visited)
          < card ((imported_names g \<union> set (n # stack)) - visited)"
proof -
  have "(imported_names g' \<union> set (mod_imports m @ stack)) - insert n visited
          \<subset> (imported_names g \<union> set (n # stack)) - visited"
    using get_module_imports [OF gm] assms(1) by auto
  then show ?thesis
    by (intro psubset_card_mono) (simp_all add: finite_imported_names)
qed


termination is_dependent_loop
proof (relation "measures [\<lambda>(g, other_name, visited, stack). card ((imported_names g \<union> set stack) - visited),
                           \<lambda>(g, other_name, visited, stack). length stack]", goal_cases)
  case 1
  show ?case by simp
next
  case (2 g other_name visited n stack)
  then have "card ((imported_names g \<union> set stack) - visited)
       = card ((imported_names g \<union> set (n # stack)) - visited)"
    by (rule is_dependent_loop_visited_measure)
  then show ?case
    by (simp only: in_measures prod.case length_Cons) simp
next
  case (3 g other_name visited n stack x g' m)
  from 3(3,4) have "get_module g n = (Some m, g')" by simp
  from is_dependent_loop_push_measure [OF 3(1) this]
  show ?case
    by (simp only: in_measures prod.case) simp
qed

text \<open>\<open>Module.is_dependent(self, other)\<close>.\<close>

definition is_dependent :: "'b Generator \<Rightarrow> 'b Module \<Rightarrow> 'b Module \<Rightarrow> bool \<times> 'b Generator" where
  "is_dependent g self other =
     (if mod_imports self = [] \<and> mod_imports other = [] then (False, g)
      else is_dependent_loop g (mod_name other) {} (mod_imports self))"

text \<open>
  \<open>Module.is_circular(self, other)\<close>: \<open>and\<close> evaluates \<open>other.is_dependent(self)\<close> only
  when \<open>self.is_dependent(other)\<close> is true.
\<close>

definition is_circular :: "'b Generator \<Rightarrow> 'b Module \<Rightarrow> 'b Module \<Rightarrow> bool \<times> 'b Generator" where
  "is_circular g self other =
     (case is_dependent g self other of
        (True, g') \<Rightarrow> is_dependent g' other self
      | (False, g') \<Rightarrow> (False, g'))"

text \<open>
  \<open>Generator.check_circular\<close>. \<open>enumerate\<close> pairs every module with its index; the slice
  \<open>mods[i + 1:-1]\<close> stops before the last element of the list. \<open>check_circular_pairs\<close> is
  the sequence of pairs \<open>(mod1, mod2)\<close> that the two nested loops run through.
\<close>

definition slice_to_last :: "'a list \<Rightarrow> nat \<Rightarrow> 'a list" where
  "slice_to_last xs i = drop i (butlast xs)"

definition check_circular_pairs :: "'m list \<Rightarrow> ('m \<times> 'm) list" where
  "check_circular_pairs ms =
     concat (map (\<lambda>(i, mod1). map (\<lambda>mod2. (mod1, mod2)) (slice_to_last ms (i + 1)))
                 (enumerate 0 ms))"

fun check_circular_loop ::
  "('b Module \<times> 'b Module) list \<Rightarrow> 'b Generator \<Rightarrow> io_state \<Rightarrow> 'b Generator \<times> io_state" where
  "check_circular_loop [] g io = (g, io)"
| "check_circular_loop ((mod1, mod2) # rest) g io =
     (case is_circular g mod1 mod2 of
        (True, g') \<Rightarrow>
          check_circular_loop rest g'
            (io\<lparr>logger := logger io @
               [[CHR 0x09] @ ''Found circular import: '' @ mod_name mod1 @ '' <--> ''
                  @ mod_name mod2 @ [CHR 0x0A]]\<rparr>)
      | (False, g') \<Rightarrow> check_circular_loop rest g' io)"

definition check_circular :: "'b Generator \<Rightarrow> io_state \<Rightarrow> 'b Generator \<times> io_state" where
  "check_circular g io =
     check_circular_loop (check_circular_pairs (modules g)) g
       (io\<lparr>logger := logger io @ [''Finding circular imports...'' @ [CHR 0x0A]]\<rparr>)"

text \<open>
  The class attributes of \<open>Generator\<close> as the class statement initialises them; the
  instance attributes \<open>compiler_args\<close> and \<open>include_dirs\<close> as \<open>__init__\<close> does.
\<close>

definition Generator_init :: "'b Generator" where
  "Generator_init =
     \<lparr>available_mods = {}, available_incs = {}, available_templates = {},
      excluded_classes = {}, excluded_functions = {}, excluded_rtypes = {}, excluded_enums = {},
      excluded_fnames = {}, excluded_mods = {}, excluded_typedefs = {}, excluded_fields = {},
      excluded_headers = {}, excluded_namespaces = {''std''}, nodelete = {}, nested_classes = {},
      downcast_classes = {}, skipped = {}, immutable = {}, split = {}, opaque_types = {},
      namespace = [], common_includes = [],
      excluded_bases = Map.empty, import_guards = Map.empty, plus_headers = Map.empty,
      minus_headers = Map.empty, python_names = Map.empty, excluded_imports = Map.empty,
      call_guards = Map.empty, keep_alive = Map.empty, before_type = Map.empty,
      after_type = Map.empty, patches = Map.empty, return_policies = Map.empty,
      before_module = Map.empty, to_bind = {}, sort_order = Map.empty, mods = [],
      compiler_args = Map.empty, include_dirs = []\<rparr>"

section \<open>Rule configuration\<close>

text \<open>
  The exceptions of the generator. Unpacking \<open>a, b = xs\<close> raises \<open>ValueError\<close> when
  \<open>xs\<close> has not exactly two elements; \<open>int(s)\<close> raises \<open>ValueError\<close> when \<open>s\<close> is no
  integer literal or has more digits than the interpreter converts; a dictionary raises
  \<open>KeyError\<close> for a key that it does not have; \<open>process_config\<close> wraps the exception of
  a line in a \<open>RuntimeError\<close> whose message has the line number.
\<close>

datatype exn =
    NotEnoughValues nat nat
  | TooManyValues nat
  | InvalidLiteral string
  | ExceedsMaxStrDigits nat
  | KeyError string
  | RuntimeError nat exn





















section \<open>Cursors, types and binders\<close>

text \<open>
  What the generator reads from libclang. A cursor is a finite tree: its children, its
  semantic parent (\<open>None\<close> for a declaration at the top level, whose parent is the
  translation unit), its types, and the cursors that \<open>get_definition\<close> and
  \<open>get_specialization\<close> give (\<open>None\<close> when libclang has none). A type has its spelling,
  its kind, its canonical type (\<open>None\<close> when the type is canonical itself), its pointee
  (\<open>None\<close> when libclang gives the invalid type) and its declaration (\<open>None\<close> when
  libclang gives a cursor of kind \<open>NO_DECL_FOUND\<close>).
\<close>

datatype AccessSpecifier = INVALID_ACCESS | PUBLIC | PROTECTED | PRIVATE | NO_ACCESS

datatype TypeKind =
    INVALID | RECORD | TYPEDEF | POINTER | ELABORATED | LVALUEREFERENCE | RVALUEREFERENCE
  | FUNCTIONPROTO | CONSTANTARRAY | INCOMPLETEARRAY | VARIABLEARRAY | DEPENDENTSIZEDARRAY
  | OTHER_TYPE_KIND

record cursor_data =
  c_kind :: CursorKind
  c_spelling :: string
  c_displayname :: string
  c_access_specifier :: AccessSpecifier
  c_file :: "string option"
  c_brief_comment :: "string option"
  c_tokens :: "string list"
  c_is_definition :: bool
  c_is_bitfield :: bool
  c_is_pure_virtual_method :: bool
  c_is_abstract_record :: bool
  c_is_const_method :: bool
  c_is_static_method :: bool
  c_is_move_constructor :: bool

datatype cursor =
  Cursor (cdata: cursor_data) (semantic_parent: "cursor option") (get_children: "cursor list")
    (ctype: ctype) (result_type: ctype) (underlying_typedef_type: ctype)
    (get_definition: "cursor option") (get_specialization: "cursor option")
and ctype =
  Type (type_spelling: string) (type_kind: TypeKind) (is_const_qualified: bool)
    (get_canonical: "ctype option") (get_pointee: "ctype option")
    (get_declaration: "cursor option")

text \<open>
  \<open>class MacroForHandle\<close>. The name of a macro is one of the keys of \<open>macro2func\<close> and
  \<open>macro2headers\<close>: \<open>traverse\<close> makes a \<open>MacroForHandle\<close> for these macros only.
\<close>

datatype macro_kind = DEFINE_HARRAY1 | DEFINE_HARRAY2 | DEFINE_HSEQUENCE

record MacroForHandle =
  macro_name :: macro_kind
  type1 :: string
  type2 :: string

fun macro2func :: "macro_kind \<Rightarrow> string" where
  "macro2func DEFINE_HARRAY1 = ''bind_Define_HArray1''"
| "macro2func DEFINE_HARRAY2 = ''bind_Define_HArray2''"
| "macro2func DEFINE_HSEQUENCE = ''bind_Define_HSequence''"

fun macro2headers :: "macro_kind \<Rightarrow> string list" where
  "macro2headers DEFINE_HARRAY1 = [''bind_Define_HArray1.hxx'']"
| "macro2headers DEFINE_HARRAY2 = [''bind_Define_HArray2.hxx'']"
| "macro2headers DEFINE_HSEQUENCE = [''bind_Define_HSequence.hxx'']"

text \<open>
  \<open>class CursorBinder\<close>: the cursor and the attributes that \<open>__init__\<close> sets and the
  generator assigns later. (\<open>filename\<close> and \<open>module_name\<close> are computed from the cursor
  in \<open>__init__\<close> and never assigned again; they are functions below.) The alias is the
  binder as it was when the alias was recorded; the generator reads its names only.
\<close>

datatype cursor_binder =
  CursorBinder (cursor: cursor) (b_alias: "cursor_binder option") (parent_name: string)
    (pname: "string option") (bind_name: "string option") (b_includes: "string list")
    (grouped_binders: "cursor_binder list") (skip: bool) (src: "string list") (opaque: "string list")
    (macro: "MacroForHandle option")

text \<open>\<open>CursorBinder(cursor)\<close>.\<close>

definition new_binder :: "cursor \<Rightarrow> cursor_binder" where
  "new_binder c = CursorBinder c None ''mod'' None None [] [] False [] [] None"

text \<open>
  What \<open>core.py\<close> takes from outside: \<open>fnmatch.fnmatch\<close>, the constants
  \<open>PY_OPERATORS\<close> and \<open>SRC_PREFIX\<close> of \<open>pybinder.common\<close>, the digest
  \<open>hashlib.sha256(...).hexdigest()\<close>, and the order in which the interpreter iterates a
  set of strings. That order depends on the hash seed of the process: \<open>set_iter\<close> takes
  the elements of the set and gives them in the order of iteration of this process.
\<close>

record env =
  fnmatch :: "string \<Rightarrow> string \<Rightarrow> bool"
  PY_OPERATORS :: "string \<rightharpoonup> string"
  SRC_PREFIX :: string
  sha256_digest :: "string \<Rightarrow> string"
  set_iter :: "string list \<Rightarrow> string list"

text \<open>
  The result of a function that may raise and that writes to the log: the exception or
  the value, and the messages written, which for an exception are those written before
  the \<open>raise\<close>.
\<close>

type_synonym 'a result = "(exn + 'a) \<times> string list"

text \<open>
  The results of a loop that appends the lines of each pass: the first exception ends the
  loop.
\<close>

fun collect :: "'a list result list \<Rightarrow> 'a list result" where
  "collect [] = (Inr [], [])"
| "collect ((Inl e, log) # rs) = (Inl e, log)"
| "collect ((Inr xs, log) # rs) =
     (case collect rs of
        (Inl e, log') \<Rightarrow> (Inl e, log @ log')
      | (Inr ys, log') \<Rightarrow> (Inr (xs @ ys), log @ log'))"

text \<open>The characters that a string literal cannot hold.\<close>

abbreviation NL :: string where "NL \<equiv> [CHR 0x0A]"
abbreviation TAB :: string where "TAB \<equiv> [CHR 0x09]"
abbreviation DQ :: string where "DQ \<equiv> [CHR 0x22]"
abbreviation SQ :: string where "SQ \<equiv> [CHR 0x27]"

text \<open>\<open>MacroForHandle.generate\<close> and \<open>MacroForHandle.headers\<close>.\<close>

definition MacroForHandle_generate :: "MacroForHandle \<Rightarrow> string" where
  "MacroForHandle_generate m =
     macro2func (macro_name m) @ ''<'' @ type1 m @ '', '' @ type2 m @ ''>(mod, '' @ DQ @ type1 m
       @ DQ @ '');''"

definition MacroForHandle_headers :: "MacroForHandle \<Rightarrow> string list" where
  "MacroForHandle_headers m = macro2headers (macro_name m)"

subsection \<open>\<open>TypeBinder\<close>\<close>

text \<open>A \<open>TypeBinder\<close> has no state of its own; it is the type.\<close>

definition invalid_type :: ctype where
  "invalid_type = Type [] INVALID False None None None"

definition canonical :: "ctype \<Rightarrow> ctype" where
  "canonical t = (case get_canonical t of None \<Rightarrow> t | Some c \<Rightarrow> c)"

definition pointee :: "ctype \<Rightarrow> ctype" where
  "pointee t = (case get_pointee t of None \<Rightarrow> invalid_type | Some p \<Rightarrow> p)"

abbreviation is_record :: "ctype \<Rightarrow> bool" where "is_record t \<equiv> type_kind t = RECORD"
abbreviation is_pointer :: "ctype \<Rightarrow> bool" where "is_pointer t \<equiv> type_kind t = POINTER"
abbreviation is_elaborated :: "ctype \<Rightarrow> bool" where "is_elaborated t \<equiv> type_kind t = ELABORATED"
abbreviation is_lvalue :: "ctype \<Rightarrow> bool" where "is_lvalue t \<equiv> type_kind t = LVALUEREFERENCE"
abbreviation is_rvalue :: "ctype \<Rightarrow> bool" where "is_rvalue t \<equiv> type_kind t = RVALUEREFERENCE"
abbreviation is_fnproto :: "ctype \<Rightarrow> bool" where "is_fnproto t \<equiv> type_kind t = FUNCTIONPROTO"

definition is_fn_ptr :: "ctype \<Rightarrow> bool" where
  "is_fn_ptr t = (if \<not> is_pointer t then False else is_fnproto (pointee t))"

definition is_pointer_like :: "ctype \<Rightarrow> bool" where
  "is_pointer_like t = (is_pointer t \<or> is_lvalue t \<or> is_rvalue t)"

definition is_array_like :: "ctype \<Rightarrow> bool" where
  "is_array_like t =
     (type_kind t \<in> {CONSTANTARRAY, INCOMPLETEARRAY, VARIABLEARRAY, DEPENDENTSIZEDARRAY})"

text \<open>
  \<open>TypeBinder.is_alias\<close>. The declaration of an elaborated type decides; a pointer or
  reference is an alias when its pointee is. (The invalid type is no alias.)
\<close>

fun is_alias :: "ctype \<Rightarrow> bool" where
  "is_alias (Type s k c can pt d) =
     (if k = ELABORATED then
        (case d of
           None \<Rightarrow> False
         | Some dc \<Rightarrow> c_kind (cdata dc) \<in> {TYPE_ALIAS_DECL, USING_DECLARATION, TYPEDEF_DECL,
                                            CLASS_DECL, STRUCT_DECL, ENUM_DECL})
      else if k = POINTER \<or> k = LVALUEREFERENCE \<or> k = RVALUEREFERENCE then
        (case pt of None \<Rightarrow> False | Some p \<Rightarrow> is_alias p)
      else False)"

subsection \<open>Names\<close>

text \<open>
  The loop of \<open>qualified_name\<close> and \<open>qualified_display_name\<close>: the display names from the
  cursor outwards, up to the translation unit or the first cursor without a name.
\<close>

fun display_names :: "cursor \<Rightarrow> string list" where
  "display_names (Cursor d p ch t rt ut df sp) =
     (if c_kind d = NO_DECL_FOUND \<or> c_kind d = TRANSLATION_UNIT then []
      else if c_displayname d = [] then []
      else c_displayname d # (case p of None \<Rightarrow> [] | Some q \<Rightarrow> display_names q))"

text \<open>The same loop over the spellings, for \<open>qualified_spelling\<close>.\<close>

fun spellings :: "cursor \<Rightarrow> string list" where
  "spellings (Cursor d p ch t rt ut df sp) =
     (if c_kind d = NO_DECL_FOUND \<or> c_kind d = TRANSLATION_UNIT then []
      else if c_spelling d = [] then []
      else c_spelling d # (case p of None \<Rightarrow> [] | Some q \<Rightarrow> spellings q))"

abbreviation kind :: "cursor_binder \<Rightarrow> CursorKind" where
  "kind b \<equiv> c_kind (cdata (cursor b))"

abbreviation spelling :: "cursor_binder \<Rightarrow> string" where
  "spelling b \<equiv> c_spelling (cdata (cursor b))"

abbreviation display_name :: "cursor_binder \<Rightarrow> string" where
  "display_name b \<equiv> c_displayname (cdata (cursor b))"

text \<open>\<open>qname.split('()')[0]\<close> and the like: the text before the first separator.\<close>

definition before_first :: "string \<Rightarrow> string \<Rightarrow> string" where
  "before_first s sep = hd (str_split s sep)"

definition qualified_name_of :: "cursor \<Rightarrow> string" where
  "qualified_name_of c =
     (let qname = join ''::'' (rev (display_names c)) in
      if contains qname ''operator()'' then before_first qname ''()'' @ ''()''
      else if contains qname ''('' then before_first qname ''(''
      else qname)"

definition qualified_name :: "cursor_binder \<Rightarrow> string" where
  "qualified_name b = qualified_name_of (cursor b)"

definition qualified_display_name_of :: "cursor \<Rightarrow> string" where
  "qualified_display_name_of c =
     (let names = rev (display_names c);
          names = (if ''__1'' \<in> set names then remove1 ''__1'' names else names);
          qname = join ''::'' names in
      if contains qname ''operator()'' then before_first qname ''()'' @ ''()''
      else qname)"

definition qualified_display_name :: "cursor_binder \<Rightarrow> string" where
  "qualified_display_name b = qualified_display_name_of (cursor b)"

definition qualified_spelling :: "cursor_binder \<Rightarrow> string" where
  "qualified_spelling b = join ''::'' (rev (spellings (cursor b)))"

text \<open>
  \<open>is_nested\<close>: the parent is not the translation unit. \<open>parent\<close> is \<open>None\<close> for the
  translation unit.
\<close>

definition is_nested_cursor :: "cursor \<Rightarrow> bool" where
  "is_nested_cursor c =
     (case semantic_parent c of None \<Rightarrow> False | Some p \<Rightarrow> c_kind (cdata p) \<noteq> TRANSLATION_UNIT)"

definition is_nested :: "cursor_binder \<Rightarrow> bool" where
  "is_nested b = is_nested_cursor (cursor b)"

definition parent :: "cursor_binder \<Rightarrow> cursor_binder option" where
  "parent b = map_option new_binder (semantic_parent (cursor b))"

definition python_name :: "cursor_binder \<Rightarrow> string" where
  "python_name b =
     (case pname b of
        Some p \<Rightarrow> p
      | None \<Rightarrow> replace (if is_nested b then spelling b else qualified_spelling b) ''::'' ''_'')"

text \<open>The qualified name and the Python name of the parent (a new binder each time).\<close>

definition parent_qualified_name :: "cursor_binder \<Rightarrow> string" where
  "parent_qualified_name b = (case parent b of None \<Rightarrow> [] | Some p \<Rightarrow> qualified_name p)"

definition parent_python_name :: "cursor_binder \<Rightarrow> string" where
  "parent_python_name b = (case parent b of None \<Rightarrow> [] | Some p \<Rightarrow> python_name p)"

definition parent_is_class_template :: "cursor_binder \<Rightarrow> bool" where
  "parent_is_class_template b =
     (case parent b of None \<Rightarrow> False | Some p \<Rightarrow> kind p = CLASS_TEMPLATE)"

text \<open>\<open>str(self.cursor.brief_comment)\<close> with newlines and double quotes replaced.\<close>

definition docs :: "cursor_binder \<Rightarrow> string" where
  "docs b =
     replace (replace (case c_brief_comment (cdata (cursor b)) of None \<Rightarrow> ''None'' | Some s \<Rightarrow> s)
                NL '' '') DQ SQ"

text \<open>\<open>filename\<close> and \<open>module_name\<close>, as \<open>__init__\<close> computes them.\<close>

definition filename :: "cursor_binder \<Rightarrow> string option" where
  "filename b =
     (case c_file (cdata (cursor b)) of
        None \<Rightarrow> None
      | Some f \<Rightarrow> Some (last (str_split (replace f [CHR 0x5C] ''/'') ''/'')))"

definition module_name_of :: "cursor_binder \<Rightarrow> string" where
  "module_name_of b =
     (case filename b of
        None \<Rightarrow> ''__None__''
      | Some f \<Rightarrow> hd (str_split f (if CHR ''_'' \<in> set f then ''_'' else ''.'')))"

subsection \<open>Kinds and children\<close>

abbreviation is_enum :: "cursor_binder \<Rightarrow> bool" where "is_enum b \<equiv> kind b = ENUM_DECL"
abbreviation is_function :: "cursor_binder \<Rightarrow> bool" where "is_function b \<equiv> kind b = FUNCTION_DECL"
abbreviation is_class :: "cursor_binder \<Rightarrow> bool" where
  "is_class b \<equiv> kind b = CLASS_DECL \<or> kind b = STRUCT_DECL"
abbreviation is_typedef :: "cursor_binder \<Rightarrow> bool" where "is_typedef b \<equiv> kind b = TYPEDEF_DECL"
abbreviation is_constructor :: "cursor_binder \<Rightarrow> bool" where "is_constructor b \<equiv> kind b = CONSTRUCTOR"
abbreviation is_cxx_method :: "cursor_binder \<Rightarrow> bool" where "is_cxx_method b \<equiv> kind b = CXX_METHOD"
abbreviation is_param :: "cursor_binder \<Rightarrow> bool" where "is_param b \<equiv> kind b = PARM_DECL"
abbreviation is_field :: "cursor_binder \<Rightarrow> bool" where "is_field b \<equiv> kind b = FIELD_DECL"
abbreviation is_class_template :: "cursor_binder \<Rightarrow> bool" where
  "is_class_template b \<equiv> kind b = CLASS_TEMPLATE"
abbreviation is_template_type_param :: "cursor_binder \<Rightarrow> bool" where
  "is_template_type_param b \<equiv> kind b = TEMPLATE_TYPE_PARAMETER"
abbreviation is_namespace :: "cursor_binder \<Rightarrow> bool" where "is_namespace b \<equiv> kind b = NAMESPACE"

abbreviation is_static_method :: "cursor_binder \<Rightarrow> bool" where
  "is_static_method b \<equiv> c_is_static_method (cdata (cursor b))"
abbreviation is_const_method :: "cursor_binder \<Rightarrow> bool" where
  "is_const_method b \<equiv> c_is_const_method (cdata (cursor b))"
abbreviation is_pure_virtual_method :: "cursor_binder \<Rightarrow> bool" where
  "is_pure_virtual_method b \<equiv> c_is_pure_virtual_method (cdata (cursor b))"
abbreviation is_abstract :: "cursor_binder \<Rightarrow> bool" where
  "is_abstract b \<equiv> c_is_abstract_record (cdata (cursor b))"
abbreviation is_move_ctor :: "cursor_binder \<Rightarrow> bool" where
  "is_move_ctor b \<equiv> c_is_move_constructor (cdata (cursor b))"
abbreviation is_bitfield :: "cursor_binder \<Rightarrow> bool" where
  "is_bitfield b \<equiv> c_is_bitfield (cdata (cursor b))"
abbreviation is_definition :: "cursor_binder \<Rightarrow> bool" where
  "is_definition b \<equiv> c_is_definition (cdata (cursor b))"

abbreviation rtype :: "cursor_binder \<Rightarrow> ctype" where "rtype b \<equiv> result_type (cursor b)"

definition is_public_cursor :: "cursor \<Rightarrow> bool" where
  "is_public_cursor c =
     (c_access_specifier (cdata c) \<noteq> PRIVATE \<and> c_access_specifier (cdata c) \<noteq> PROTECTED)"

definition is_public :: "cursor_binder \<Rightarrow> bool" where
  "is_public b = is_public_cursor (cursor b)"

text \<open>\<open>get_children_of_kind(*kind)\<close>, on cursors and on binders.\<close>

definition children_of_kind :: "cursor \<Rightarrow> CursorKind set \<Rightarrow> cursor list" where
  "children_of_kind c ks = filter (\<lambda>x. c_kind (cdata x) \<in> ks) (get_children c)"

definition get_children_of_kind :: "cursor_binder \<Rightarrow> CursorKind set \<Rightarrow> cursor_binder list" where
  "get_children_of_kind b ks = map new_binder (children_of_kind (cursor b) ks)"

definition bases :: "cursor_binder \<Rightarrow> cursor_binder list" where
  "bases b = get_children_of_kind b {CXX_BASE_SPECIFIER}"

definition ctors :: "cursor_binder \<Rightarrow> cursor_binder list" where
  "ctors b = get_children_of_kind b {CONSTRUCTOR}"

definition dtors :: "cursor_binder \<Rightarrow> cursor_binder list" where
  "dtors b = get_children_of_kind b {DESTRUCTOR}"

definition fields_of :: "cursor_binder \<Rightarrow> cursor_binder list" where
  "fields_of b = get_children_of_kind b {FIELD_DECL}"

definition enums :: "cursor_binder \<Rightarrow> cursor_binder list" where
  "enums b = get_children_of_kind b {ENUM_DECL}"

definition methods :: "cursor_binder \<Rightarrow> cursor_binder list" where
  "methods b = get_children_of_kind b {CXX_METHOD}"

definition parameters :: "cursor_binder \<Rightarrow> cursor_binder list" where
  "parameters b = get_children_of_kind b {PARM_DECL}"

definition enum_constants :: "cursor_binder \<Rightarrow> cursor_binder list" where
  "enum_constants b = get_children_of_kind b {ENUM_CONSTANT_DECL}"

definition template_parameters :: "cursor_binder \<Rightarrow> cursor_binder list" where
  "template_parameters b =
     get_children_of_kind b {TEMPLATE_TYPE_PARAMETER, TEMPLATE_NON_TYPE_PARAMETER}"

text \<open>
  The property \<open>nested_classes\<close> of a binder, as cursors (the generator's table of the same
  name is \<open>nested_classes\<close>).
\<close>

definition nested_class_cursors :: "cursor \<Rightarrow> cursor list" where
  "nested_class_cursors c = children_of_kind c {CLASS_DECL, STRUCT_DECL}"

text \<open>
  \<open>default_value\<close>: the text after the last \<open>=\<close> in the tokens of a parameter, or the
  empty string. \<open>token_text\<close> is the text \<open>txt\<close> that the loop over the tokens builds.
\<close>

definition token_text :: "cursor_binder \<Rightarrow> string" where
  "token_text b = concat (map (\<lambda>t. if t = ''>>'' then ''>'' else t) (c_tokens (cdata (cursor b))))"

definition default_value :: "cursor_binder \<Rightarrow> string" where
  "default_value b =
     (if \<not> (is_param b \<or> is_template_type_param b) then []
      else let txt = token_text b
           in if txt = [] \<or> CHR ''='' \<notin> set txt then [] else last (str_split txt ''=''))"

subsection \<open>Sizes\<close>

lemma size_get_children: "x \<in> set (get_children c) \<Longrightarrow> size x < size c"
  by (cases c) (auto simp: less_Suc_eq_le dest!: size_list_estimation' [where f = size and y = "size x"])

lemma size_children_of_kind: "x \<in> set (children_of_kind c ks) \<Longrightarrow> size x < size c"
  by (simp add: children_of_kind_def size_get_children)

lemma size_ctype: "size (ctype c) < size c"
  by (cases c) simp

lemma size_underlying_typedef_type: "size (underlying_typedef_type c) < size c"
  by (cases c) simp

lemma size_get_specialization: "get_specialization c = Some s \<Longrightarrow> size s < size c"
  by (cases c) simp

lemma size_get_declaration: "get_declaration t = Some d \<Longrightarrow> size d < size t"
  by (cases t) simp

lemma size_get_pointee: "get_pointee t = Some p \<Longrightarrow> size p < size t"
  by (cases t) simp

lemma size_typedef_underlying:
  assumes "get_declaration t = Some d"
  shows "size (underlying_typedef_type d) < size t"
proof -
  have "size (underlying_typedef_type d) < size d" by (rule size_underlying_typedef_type)
  also from assms have "\<dots> < size t" by (rule size_get_declaration)
  finally show ?thesis .
qed

subsection \<open>Spelling of aliased types\<close>

text \<open>The token loop of \<open>alias_spelling\<close> for a \<open>using\<close> declaration or type alias.\<close>

fun alias_tokens :: "string list \<Rightarrow> string list \<Rightarrow> string list" where
  "alias_tokens toks [] = toks"
| "alias_tokens toks (v # rest) =
     (if v \<in> {''const'', ''long'', ''unsigned'', ''typename''} then alias_tokens (toks @ [v @ '' '']) rest
      else if v = ''handle'' \<and> (case rest of [] \<Rightarrow> False | n # r \<Rightarrow> n = ''<'')
              \<and> (toks = [] \<or> last toks \<noteq> '':'')
      then alias_tokens (toks @ [''opencascade::handle'']) rest
      else alias_tokens (toks @ [v]) rest)"

text \<open>The last step of \<open>alias_spelling\<close>: where the \<open>const\<close> goes.\<close>

definition const_spelling :: "bool \<Rightarrow> string \<Rightarrow> string \<Rightarrow> string \<Rightarrow> string" where
  "const_spelling is_const default_spelling canonical_spelling sp =
     (if is_const \<and> \<not> startswith sp ''const '' then
        (if endswith default_spelling ''*const'' \<and> endswith sp ''*''
         then butlast sp @ '' *const''
         else ''const '' @ sp)
      else if endswith canonical_spelling ''*const &'' \<and> endswith sp ''*&''
              \<and> startswith sp ''const ''
      then take (length sp - 8) (drop 6 sp) @ '' *const &''
      else sp)"

text \<open>
  \<open>TypeBinder.alias_spelling\<close>. The recursion goes to the pointee and to the underlying
  type of a typedef declaration. (The alias spelling of the invalid type is empty.)
\<close>

function alias_spelling :: "ctype \<Rightarrow> string" where
  "alias_spelling t =
     (let canonical_spelling = type_spelling (canonical t) in
      if canonical_spelling \<in> {''void *const'', ''void *const &'', ''const char *const &'',
                                ''const std::string &''}
      then canonical_spelling
      else const_spelling (is_const_qualified t) (type_spelling t) canonical_spelling
        (if is_pointer_like t then
           (case get_pointee t of None \<Rightarrow> [] | Some ref \<Rightarrow> alias_spelling ref)
             @ (if is_pointer t then ''*'' else if is_lvalue t then ''&'' else ''&&'')
         else
           (case get_declaration t of
              None \<Rightarrow> type_spelling t
            | Some d \<Rightarrow>
                if c_kind (cdata d) = ENUM_DECL then qualified_display_name_of d
                else if (c_kind (cdata d) = CLASS_DECL \<or> c_kind (cdata d) = STRUCT_DECL)
                        \<and> is_nested_cursor d
                then ''typename '' @ qualified_display_name_of d
                else if c_kind (cdata d) = CLASS_DECL \<or> c_kind (cdata d) = STRUCT_DECL
                then (if length (qualified_display_name_of d) > length (type_spelling t)
                      then qualified_display_name_of d else type_spelling t)
                else if c_kind (cdata d) = TYPEDEF_DECL
                then (if is_fn_ptr (underlying_typedef_type d) then canonical_spelling
                      else alias_spelling (underlying_typedef_type d))
                else if c_kind (cdata d) = USING_DECLARATION \<or> c_kind (cdata d) = TYPE_ALIAS_DECL
                then concat (drop 3 (alias_tokens [] (c_tokens (cdata d))))
                else type_spelling t)))"
  by pat_completeness auto
termination
  by (relation "measure size")
    (simp_all, (blast intro: size_get_pointee size_typedef_underlying)+)

text \<open>\<open>TypeBinder.is_opaque\<close>.\<close>

definition strip_struct :: "string \<Rightarrow> string" where
  "strip_struct s = (if startswith s ''struct '' then drop 7 s else s)"

definition is_opaque :: "'b Generator \<Rightarrow> ctype \<Rightarrow> bool" where
  "is_opaque g t =
     (if is_pointer t then strip_chars (strip_struct (type_spelling t)) ''* '' \<in> opaque_types g
      else if is_alias t then
        (let s = strip_struct (alias_spelling t) in endswith s ''*'' \<and> strip_chars s ''* '' \<in> opaque_types g)
      else False)"

subsection \<open>Base classes\<close>

definition class_template_of :: "cursor option \<Rightarrow> cursor option" where
  "class_template_of sp =
     (case sp of
        None \<Rightarrow> None
      | Some s \<Rightarrow> if c_kind (cdata s) \<noteq> NO_DECL_FOUND \<and> c_kind (cdata s) = CLASS_TEMPLATE
                  then Some s else None)"

lemma size_class_template_of:
  "class_template_of (get_specialization c) = Some s \<Longrightarrow> size s < size c"
  by (auto simp: class_template_of_def size_get_specialization split: option.splits if_splits)

text \<open>
  The local function \<open>_get_bases\<close> of \<open>_all_bases\<close>: each base specifier, followed by the
  bases of the class it names. (The warning for a base of no known kind is not modelled.)
\<close>

function get_bases :: "cursor \<Rightarrow> cursor list" where
  "get_bases c =
     concat (map (\<lambda>base. base #
        (case get_declaration (ctype base) of
           None \<Rightarrow> []
         | Some decl \<Rightarrow>
             if c_kind (cdata decl) = NO_DECL_FOUND then []
             else if c_kind (cdata decl) = CLASS_TEMPLATE then get_bases decl
             else (case class_template_of (get_specialization decl) of
                     Some spec \<Rightarrow> get_bases spec
                   | None \<Rightarrow>
                       if c_kind (cdata decl) = CLASS_DECL \<or> c_kind (cdata decl) = STRUCT_DECL
                       then get_bases decl
                       else if c_kind (cdata decl) = TYPEDEF_DECL then
                         (case get_declaration (underlying_typedef_type decl) of
                            None \<Rightarrow> []
                          | Some decl' \<Rightarrow>
                              (case class_template_of (get_specialization decl') of
                                 Some spec' \<Rightarrow> get_bases spec'
                               | None \<Rightarrow> get_bases decl'))
                       else [])))
       (children_of_kind c {CXX_BASE_SPECIFIER}))"
  by pat_completeness auto

lemma size_base_declaration:
  assumes "base \<in> set (children_of_kind c ks)" and "get_declaration (ctype base) = Some decl"
  shows "size decl < size c"
proof -
  from assms(2) have "size decl < size (ctype base)" by (rule size_get_declaration)
  also have "\<dots> < size base" by (rule size_ctype)
  also from assms(1) have "\<dots> < size c" by (rule size_children_of_kind)
  finally show ?thesis .
qed

lemma size_typedef_declaration:
  assumes "get_declaration (underlying_typedef_type decl) = Some decl'"
  shows "size decl' < size decl"
proof -
  from assms have "size decl' < size (underlying_typedef_type decl)" by (rule size_get_declaration)
  also have "\<dots> < size decl" by (rule size_underlying_typedef_type)
  finally show ?thesis .
qed

lemma size_base_specialization:
  assumes "base \<in> set (children_of_kind c ks)" and "get_declaration (ctype base) = Some decl"
    and "class_template_of (get_specialization decl) = Some spec"
  shows "size spec < size c"
proof -
  from assms(3) have "size spec < size decl" by (rule size_class_template_of)
  also from assms(1,2) have "\<dots> < size c" by (rule size_base_declaration)
  finally show ?thesis .
qed

lemma size_base_typedef:
  assumes "base \<in> set (children_of_kind c ks)" and "get_declaration (ctype base) = Some decl"
    and "get_declaration (underlying_typedef_type decl) = Some decl'"
  shows "size decl' < size c"
proof -
  from assms(3) have "size decl' < size decl" by (rule size_typedef_declaration)
  also from assms(1,2) have "\<dots> < size c" by (rule size_base_declaration)
  finally show ?thesis .
qed

lemma size_base_typedef_specialization:
  assumes "base \<in> set (children_of_kind c ks)" and "get_declaration (ctype base) = Some decl"
    and "get_declaration (underlying_typedef_type decl) = Some decl'"
    and "class_template_of (get_specialization decl') = Some spec'"
  shows "size spec' < size c"
proof -
  from assms(4) have "size spec' < size decl'" by (rule size_class_template_of)
  also from assms(1,2,3) have "\<dots> < size c" by (rule size_base_typedef)
  finally show ?thesis .
qed

termination get_bases
  by (relation "measure size")
    (simp_all, (blast intro: size_base_declaration size_base_specialization size_base_typedef
        size_base_typedef_specialization)+)

declare get_bases.simps [simp del]
declare alias_spelling.simps [simp del]

text \<open>The property \<open>_all_bases\<close>.\<close>

definition all_bases :: "cursor_binder \<Rightarrow> cursor_binder list" where
  "all_bases b =
     map new_binder
       (case class_template_of (get_specialization (cursor b)) of
          Some spec \<Rightarrow> get_bases spec
        | None \<Rightarrow> get_bases (cursor b))"

subsection \<open>Properties of a binder\<close>

definition is_transient :: "cursor_binder \<Rightarrow> bool" where
  "is_transient b =
     (if type_spelling (ctype (cursor b)) = ''Standard_Transient'' then True
      else list_ex (\<lambda>base. type_spelling (ctype (cursor base)) = ''Standard_Transient'') (all_bases b))"

definition holder_type :: "cursor_binder \<Rightarrow> string" where
  "holder_type b = (if is_transient b then ''opencascade::handle'' else ''std::unique_ptr'')"

definition needs_nodelete :: "cursor_binder \<Rightarrow> bool" where
  "needs_nodelete b = list_ex (\<lambda>dtor. \<not> is_public dtor) (dtors b)"

text \<open>
  \<open>needs_default_ctor\<close>: the constructors looked for are the constructor children of the
  class and of its base specifiers (the result of \<open>item.get_definition()\<close> is not used).
\<close>

definition needs_default_ctor :: "cursor_binder \<Rightarrow> bool" where
  "needs_default_ctor b =
     (if is_abstract b then False
      else \<not> list_ex (\<lambda>item. ctors item \<noteq> []) (b # all_bases b))"

definition has_unimplemented_methods :: "cursor_binder \<Rightarrow> bool" where
  "has_unimplemented_methods b =
     (if list_ex is_pure_virtual_method (methods b) then True
      else
        let base_methods =
              concat (map (\<lambda>base. case get_definition (cursor base) of
                                     None \<Rightarrow> []
                                   | Some d \<Rightarrow> if c_kind (cdata d) = NO_DECL_FOUND then []
                                               else methods (new_binder d))
                          (all_bases b));
            all_virtual_methods = map spelling (filter is_pure_virtual_method base_methods);
            all_methods = map spelling (methods b)
                          @ map spelling (filter (\<lambda>m. \<not> is_pure_virtual_method m) base_methods)
        in list_ex (\<lambda>v. v \<notin> set all_methods) all_virtual_methods)"

definition is_immutable :: "'b Generator \<Rightarrow> cursor_binder \<Rightarrow> bool" where
  "is_immutable g b =
     (let t = ctype (cursor b);
          t = (if is_pointer_like t then pointee t else t)
      in type_spelling t \<in> immutable g)"

definition needs_inout_method :: "'b Generator \<Rightarrow> cursor_binder \<Rightarrow> bool" where
  "needs_inout_method g b =
     list_ex (\<lambda>a. is_immutable g a \<and> \<not> is_const_qualified (ctype (cursor a))
                  \<and> is_pointer_like (ctype (cursor a)))
             (parameters b)"

definition is_operator :: "env \<Rightarrow> cursor_binder \<Rightarrow> bool" where
  "is_operator ev b =
     (if is_function b \<or> is_cxx_method b then PY_OPERATORS ev (spelling b) \<noteq> None else False)"

text \<open>
  \<open>is_getter_method\<close>. (For a method whose parent is the translation unit the model has no
  sibling methods.)
\<close>

definition is_getter_method :: "cursor_binder \<Rightarrow> bool" where
  "is_getter_method b =
     (if is_cxx_method b \<and> is_public b \<and> is_lvalue (rtype b) then
        list_ex (\<lambda>method. spelling method = ''Set'' @ spelling b \<and> is_public method)
                (case parent b of None \<Rightarrow> [] | Some p \<Rightarrow> methods p)
      else False)"

definition is_maybe_iterable :: "cursor_binder \<Rightarrow> bool" where
  "is_maybe_iterable b =
     (let method_names = map spelling (filter is_public (methods b))
      in ''begin'' \<in> set method_names \<and> ''end'' \<in> set method_names)"

text \<open>\<open>CursorBinder.is_excluded\<close>, by kind of cursor.\<close>

definition is_excluded :: "env \<Rightarrow> 'b Generator \<Rightarrow> cursor_binder \<Rightarrow> bool" where
  "is_excluded ev g b =
     (if is_enum b then qualified_name b \<in> excluded_enums g
      else if is_function b \<or> is_constructor b then
        ((\<exists>pat \<in> excluded_functions g. fnmatch ev (qualified_name b) pat)
         \<or> (\<exists>pat \<in> excluded_functions g. fnmatch ev (qualified_display_name b) pat)
         \<or> (\<exists>pat \<in> excluded_rtypes g. fnmatch ev (type_spelling (rtype b)) pat))
      else if is_class b \<or> is_class_template b then qualified_name b \<in> excluded_classes g
      else if is_typedef b then qualified_name b \<in> excluded_typedefs g
      else if is_field b then qualified_name b \<in> excluded_fields g
      else if is_cxx_method b then
        (let name = qualified_name b @ (if is_static_method b then ''_'' else []);
             fname = spelling b @ (if is_static_method b then ''_'' else [])
         in (\<exists>pat \<in> excluded_functions g. fnmatch ev name pat)
            \<or> (\<exists>pat \<in> excluded_fnames g. fnmatch ev fname pat)
            \<or> (\<exists>pat \<in> excluded_functions g. fnmatch ev (qualified_display_name b) pat)
            \<or> (\<exists>pat \<in> excluded_rtypes g. fnmatch ev (type_spelling (rtype b)) pat))
      else False)"

section \<open>Source generation\<close>

subsection \<open>Functions, constructors and methods\<close>

text \<open>The spelling of a parameter type in a signature, as \<open>function_signature\<close> chooses it.\<close>

definition arg_type_spelling :: "'b Generator \<Rightarrow> ctype \<Rightarrow> string" where
  "arg_type_spelling g t =
     (if is_opaque g t then ''void* /* '' @ type_spelling t @ '' */''
      else if is_alias t then alias_spelling t
      else type_spelling t)"

text \<open>
  \<open>function_signature\<close>: the number of parameters, the number of parameters with a default
  value, and the lists of names, types, default values and array flags.
\<close>

definition function_signature ::
  "'b Generator \<Rightarrow> cursor_binder \<Rightarrow> nat \<times> nat \<times> string list \<times> string list \<times> string list \<times> bool list" where
  "function_signature g b =
     (let ps = parameters b in
      (length ps,
       length (filter (\<lambda>arg. default_value arg \<noteq> []) ps),
       map spelling ps,
       map (\<lambda>arg. arg_type_spelling g (ctype (cursor arg))) ps,
       map default_value ps,
       map (\<lambda>arg. is_array_like (ctype (cursor arg))) ps))"

text \<open>\<open>', py::arg("name")'\<close> for each name, joined.\<close>

definition py_args :: "string list \<Rightarrow> string" where
  "py_args names = concat (map (\<lambda>name. '', py::arg('' @ DQ @ name @ DQ @ '')'') names)"

text \<open>\<open>' '.join(['//', src])\<close>.\<close>

definition commented :: "string \<Rightarrow> string" where
  "commented s = ''// '' @ s"

text \<open>\<open>range(a, b)\<close>.\<close>

definition range :: "nat \<Rightarrow> nat \<Rightarrow> nat list" where
  "range a b = [a ..< b]"


text \<open>\<open>generate_ctor\<close>: one \<open>py::init\<close> line for each number of arguments in the range.\<close>

definition ctor_line :: "env \<Rightarrow> 'b Generator \<Rightarrow> cursor_binder \<Rightarrow> string list \<Rightarrow> string list \<Rightarrow> nat \<Rightarrow> string" where
  "ctor_line ev g b args_name args_type i =
     (let names = take i args_name;
          signature = join '', '' (take i args_type);
          line = parent_name b @ ''.def(py::init<'' @ signature @ ''>()'' @ py_args names @ '');'' @ NL
      in if is_excluded ev g b \<or> is_move_ctor b \<or> contains signature ''&&''
         then commented line else line)"

definition generate_ctor :: "env \<Rightarrow> 'b Generator \<Rightarrow> cursor_binder \<Rightarrow> string list" where
  "generate_ctor ev g b =
     (let (nargs, ndefaults, args_name, args_type, defaults, array_like) = function_signature g b
      in map (ctor_line ev g b args_name args_type) (range (nargs - ndefaults) (nargs + 1)))"

text \<open>
  \<open>generate_immutable_inout_method\<close>. The first function is its loop over the parameters:
  type, name (a parameter without a name gets \<open>a0\<close>, \<open>a1\<close>, ...) and whether the
  parameter is returned.
\<close>

fun inout_args :: "'b Generator \<Rightarrow> nat \<Rightarrow> cursor_binder list \<Rightarrow> (string \<times> string \<times> bool) list" where
  "inout_args g i [] = []"
| "inout_args g i (arg # rest) =
     (let t = (if is_alias (ctype (cursor arg)) then alias_spelling (ctype (cursor arg))
               else type_spelling (ctype (cursor arg)));
          name = (if spelling arg = [] then ''a'' @ str_nat i else spelling arg);
          i' = (if spelling arg = [] then i + 1 else i);
          returned = (\<not> is_const_qualified (ctype (cursor arg)) \<and> is_immutable g arg
                      \<and> is_pointer_like (ctype (cursor arg)))
      in (t, name, returned) # inout_args g i' rest)"

definition parent_type_spelling :: "cursor_binder \<Rightarrow> string" where
  "parent_type_spelling b =
     (case parent b of None \<Rightarrow> [] | Some p \<Rightarrow> type_spelling (ctype (cursor p)))"

definition generate_immutable_inout_method ::
  "'b Generator \<Rightarrow> cursor_binder \<Rightarrow> string \<Rightarrow> string \<times> string list" where
  "generate_immutable_inout_method g b qname =
     (let all_args = inout_args g 0 (parameters b);
          args = map (\<lambda>(t, name, r). (t, name)) all_args;
          non_const_immutable_args = map (\<lambda>(t, name, r). (t, name)) (filter (\<lambda>(t, name, r). r) all_args);
          delimiter = (if args \<noteq> [] then '', '' else []);
          typed = join '', '' (map (\<lambda>(t, name). t @ '' '' @ name) args);
          interface_txt =
            (if is_static_method b then ''('' @ typed @ '')''
             else ''('' @ (if parent_is_class_template b then parent_qualified_name b
                           else parent_type_spelling b)
                  @ '' &self'' @ delimiter @ typed @ '')'');
          is_void = (type_spelling (rtype b) = ''void'');
          args_txt = join '', '' (map snd args);
          fcall = (if is_static_method b then qname else ''self.'' @ spelling b);
          rt = type_spelling (rtype b);
          func_txt = (if is_void then ''{ '' @ fcall @ ''('' @ args_txt @ ''); ''
                      else ''{ '' @ rt @ '' rv = '' @ fcall @ ''('' @ args_txt @ ''); '');
          return_args = join '', '' (map snd non_const_immutable_args);
          return_types = join '', '' (map fst non_const_immutable_args);
          return_txt =
            (if is_void then
               (if length non_const_immutable_args > 1
                then ''return std::tuple<'' @ return_types @ ''>('' @ return_args @ ''); }''
                else ''return '' @ return_args @ ''; }'')
             else ''return std::tuple<'' @ rt @ '', '' @ return_types @ ''>(rv, '' @ return_args @ ''); }'')
      in (''[]'' @ interface_txt @ func_txt @ return_txt, [TAB @ ''Inout: '' @ qname @ NL]))"

text \<open>What \<open>generate_method\<close> computes before its loop.\<close>

record method_parts =
  m_prefix :: string
  m_is_static :: string
  m_fname :: string
  m_rtype :: string
  m_ptr :: string
  m_is_const :: string
  m_qname :: string
  m_is_operator :: string
  m_docs :: string
  m_return_policy :: string
  m_keep_alive :: string
  m_cguards :: string
  m_nargs :: nat
  m_args_name :: "string list"
  m_args_type :: "string list"
  m_array_like :: "bool list"

definition method_parts_with ::
  "env \<Rightarrow> 'b Generator \<Rightarrow> cursor_binder \<Rightarrow> string \<Rightarrow> string \<Rightarrow> method_parts" where
  "method_parts_with ev g b fname is_op =
     (let prefix = (if is_excluded ev g b then ''// excluded // '' @ parent_name b
                    else if is_pure_virtual_method b then ''// virtual // '' @ parent_name b
                    else parent_name b);
          rt = (if is_opaque g (rtype b) then ''void* /* '' @ type_spelling (rtype b) @ '' */''
                else if is_alias (rtype b) then alias_spelling (rtype b)
                else type_spelling (rtype b));
          qname = qualified_name b;
          ptr = (if \<not> is_static_method b then join ''::'' [parent_qualified_name b, ''*''] else ''*'');
          (nargs, ndefaults, args_name, args_type, defaults, array_like) = function_signature g b
      in \<lparr>m_prefix = prefix,
          m_is_static = (if is_static_method b then ''_static'' else []),
          m_fname = fname, m_rtype = rt, m_ptr = ptr,
          m_is_const = (if is_const_method b then '' const'' else []),
          m_qname = qname, m_is_operator = is_op, m_docs = docs b,
          m_return_policy =
            (case return_policies g qname of
               Some policy \<Rightarrow> '', py::return_value_policy::'' @ policy
             | None \<Rightarrow> if is_getter_method b then '', py::return_value_policy::reference_internal''
                       else []),
          m_keep_alive =
            (case keep_alive g qname of
               Some params \<Rightarrow> '', py::keep_alive<'' @ params @ ''>()'' | None \<Rightarrow> []),
          m_cguards =
            (case call_guards g qname of Some gs \<Rightarrow> '', '' @ join '', '' gs | None \<Rightarrow> []),
          m_nargs = nargs, m_args_name = args_name, m_args_type = args_type,
          m_array_like = array_like\<rparr>)"

text \<open>
  The name under which the method is bound: the spelling, with \<open>_\<close> appended for a static
  method.
\<close>

definition method_fname :: "cursor_binder \<Rightarrow> string" where
  "method_fname b = spelling b @ (if is_static_method b then ''_'' else [])"

text \<open>
  For an operator the name is replaced by \<open>PY_OPERATORS[fname]\<close>. \<open>is_operator\<close> looks up
  the spelling, the replacement looks up the name, which for a static method has the \<open>_\<close>
  appended: when \<open>PY_OPERATORS\<close> has no such key, the lookup raises \<open>KeyError\<close>.
\<close>

definition method_parts :: "env \<Rightarrow> 'b Generator \<Rightarrow> cursor_binder \<Rightarrow> exn + method_parts" where
  "method_parts ev g b =
     (if is_operator ev b then
        (case PY_OPERATORS ev (method_fname b) of
           None \<Rightarrow> Inl (KeyError (method_fname b))
         | Some name \<Rightarrow> Inr (method_parts_with ev g b name ''py::is_operator(), ''))
      else Inr (method_parts_with ev g b (method_fname b) []))"

text \<open>The signature of the lambda for a call with fewer arguments.\<close>

fun lambda_signature :: "string \<Rightarrow> nat \<Rightarrow> string list \<Rightarrow> string" where
  "lambda_signature signature k [] = signature"
| "lambda_signature signature k (t # ts) =
     lambda_signature
       (if signature = [] then t @ '' '' @ ''a'' @ str_nat k
        else signature @ '', '' @ t @ '' '' @ ''a'' @ str_nat k)
       (k + 1) ts"

text \<open>
  The line of one pass of the loop when no in-out lambda is needed: the member pointer
  when all arguments are given, a lambda otherwise.
\<close>

definition method_line :: "method_parts \<Rightarrow> nat \<Rightarrow> string" where
  "method_line p i =
     (if i = m_nargs p then
        (let signature = join '', '' (take i (m_args_type p));
             line = m_prefix p @ ''.def'' @ m_is_static p @ ''('' @ DQ @ m_fname p @ DQ @ '', (''
                    @ m_rtype p @ '' ('' @ m_ptr p @ '')('' @ signature @ '')'' @ m_is_const p
                    @ '') &'' @ m_qname p @ '', '' @ m_is_operator p @ DQ @ m_docs p @ DQ
                    @ py_args (take i (m_args_name p)) @ m_return_policy p @ m_keep_alive p
                    @ m_cguards p @ '');'' @ NL
         in if True \<in> set (m_array_like p) \<or> contains signature ''&&''
            then commented line else line)
      else
        (let arg_list = take i (m_args_type p);
             signature0 = (if m_is_static p \<noteq> [] then []
                           else join ''::'' (butlast (str_split (m_qname p) ''::'')) @ '' &self'');
             signature = lambda_signature signature0 0 arg_list;
             call = join '', '' (map (\<lambda>k. ''a'' @ str_nat k) [0 ..< length arg_list]);
             qname' = (if m_is_static p = [] then ''self.'' @ m_fname p else m_qname p);
             line = m_prefix p @ ''.def'' @ m_is_static p @ ''('' @ DQ @ m_fname p @ DQ @ '', [](''
                    @ signature @ '') -> '' @ m_rtype p @ '' { return '' @ qname' @ ''('' @ call
                    @ ''); }'' @ m_cguards p @ '');'' @ NL;
             line = (if m_is_operator p \<noteq> [] then commented line else line)
         in if True \<in> set (m_array_like p) \<or> contains signature ''&&''
            then commented line else line))"

text \<open>The line of the in-out lambda, with which the loop returns in its first pass.\<close>

definition inout_line :: "method_parts \<Rightarrow> string \<Rightarrow> string" where
  "inout_line p txt =
     (let line = m_prefix p @ ''.def'' @ m_is_static p @ ''('' @ DQ @ m_fname p @ DQ @ '', '' @ txt
                 @ '', '' @ DQ @ m_docs p @ DQ @ py_args (m_args_name p) @ '');'' @ NL
      in if True \<in> set (m_array_like p) then commented line else line)"

text \<open>
  The loop of \<open>generate_method\<close> over the numbers of arguments; \<open>acc\<close> is the list
  \<open>methods\<close> built so far. With \<open>needs_inout\<close> the first pass returns the single in-out line.
\<close>

fun generate_method_loop ::
  "'b Generator \<Rightarrow> cursor_binder \<Rightarrow> method_parts \<Rightarrow> bool \<Rightarrow> nat list \<Rightarrow> string list
     \<Rightarrow> string list \<times> string list" where
  "generate_method_loop g b p needs_inout [] acc = (acc, [])"
| "generate_method_loop g b p needs_inout (i # rest) acc =
     (if needs_inout then
        (let (txt, log) = generate_immutable_inout_method g b (m_qname p)
         in ([inout_line p txt], log))
      else generate_method_loop g b p needs_inout rest (acc @ [method_line p i]))"

text \<open>
  \<open>generate_method\<close>: the lines and the messages written to the log, or the \<open>KeyError\<close>
  of the operator name, which is raised before the loop.
\<close>

definition generate_method :: "env \<Rightarrow> 'b Generator \<Rightarrow> cursor_binder \<Rightarrow> string list result" where
  "generate_method ev g b =
     (case method_parts ev g b of
        Inl e \<Rightarrow> (Inl e, [])
      | Inr p \<Rightarrow>
          (let (nargs, ndefaults, args_name, args_type, defaults, array_like) = function_signature g b;
               (lines, log) = generate_method_loop g b p (needs_inout_method g b)
                                (range (nargs - ndefaults) (nargs + 1)) []
           in (Inr lines, log)))"

subsection \<open>Enumerations and fields\<close>

text \<open>\<open>re.search(r'(anonymous|unnamed) enum', s)\<close> as a truth value.\<close>

definition anonymous_enum :: "string \<Rightarrow> bool" where
  "anonymous_enum s = (contains s ''anonymous enum'' \<or> contains s ''unnamed enum'')"

text \<open>\<open>re.search(r'\((anonymous|unnamed)', s)\<close>: the start of the first match, if any.\<close>

fun search_anonymous :: "string \<Rightarrow> nat \<Rightarrow> nat option" where
  "search_anonymous [] n = None"
| "search_anonymous (c # cs) n =
     (if startswith (c # cs) ''(anonymous'' \<or> startswith (c # cs) ''(unnamed'' then Some n
      else search_anonymous cs (n + 1))"

text \<open>The line for a constant of an anonymous enumeration.\<close>

definition anonymous_constant_line :: "string \<Rightarrow> cursor_binder \<Rightarrow> string" where
  "anonymous_constant_line par e =
     (let name = spelling e;
          ts = type_spelling (ctype (cursor e));
          qname = (case search_anonymous ts 0 of
                     Some indx \<Rightarrow> if indx \<noteq> 0 then take indx ts @ spelling e else qualified_name e
                   | None \<Rightarrow> qualified_name e)
      in par @ ''.attr('' @ DQ @ name @ DQ @ '') = py::cast(int(''
         @ (if qname \<noteq> [] then qname else name) @ ''));'' @ NL)"

text \<open>The line for a constant of a named enumeration.\<close>

definition constant_line :: "cursor_binder \<Rightarrow> cursor_binder \<Rightarrow> string" where
  "constant_line b e =
     (let qname = qualified_name e;
          qname = (if startswith qname ''::'' then type_spelling (ctype (cursor b)) @ qname
                   else if \<not> contains qname ''::''
                   then join ''::'' [type_spelling (ctype (cursor e)), spelling e]
                   else qname)
      in TAB @ ''.value('' @ DQ @ spelling e @ DQ @ '', '' @ qname @ '')'' @ NL)"

text \<open>The text of \<open>generate_enum\<close> before the test for exclusion.\<close>

definition enum_text :: "'b Generator \<Rightarrow> cursor_binder \<Rightarrow> string list" where
  "enum_text g b =
     (let qname = qualified_name b;
          name = (case python_names g qname of Some n \<Rightarrow> n | None \<Rightarrow> python_name b)
      in if anonymous_enum (type_spelling (ctype (cursor b)))
         then map (anonymous_constant_line (parent_name b)) (enum_constants b)
         else
           (let name = (if name = [] then replace (type_spelling (ctype (cursor b))) ''::'' ''_''
                        else name);
                qname = (if qname = [] then type_spelling (ctype (cursor b)) else qname)
            in [''py::enum_<'' @ qname @ ''>('' @ parent_name b @ '', '' @ DQ @ name @ DQ @ '', ''
                @ DQ @ docs b @ DQ @ '')'' @ NL]
               @ map (constant_line b) (enum_constants b)
               @ [TAB @ ''.export_values();'' @ NL]))"

text \<open>\<open>src.insert(0, '/*\n')\<close> and \<open>src.append('*/\n')\<close>.\<close>

definition block_comment :: "string list \<Rightarrow> string list" where
  "block_comment lines = (''/*'' @ NL) # lines @ [''*/'' @ NL]"

definition generate_enum :: "env \<Rightarrow> 'b Generator \<Rightarrow> cursor_binder \<Rightarrow> string list" where
  "generate_enum ev g b =
     (if is_excluded ev g b then block_comment (enum_text g b) else enum_text g b)"

text \<open>
  \<open>generate_field\<close>. The test \<open>type_ == "_readonly"\<close> of the source compares with a value
  that \<open>type_\<close> never has.
\<close>

definition generate_field :: "env \<Rightarrow> 'b Generator \<Rightarrow> cursor_binder \<Rightarrow> string list" where
  "generate_field ev g b =
     (let name = spelling b;
          qname = qualified_name b;
          ty = (if is_const_qualified (ctype (cursor b)) then ''readonly'' else ''readwrite'');
          prefix = (if is_excluded ev g b then ''// '' @ parent_name b else parent_name b);
          line =
            (if is_bitfield b then
               (let ftype = type_spelling (ctype (cursor b));
                    par = parent_qualified_name b;
                    reader = ''[]('' @ par @ ''& self) -> '' @ ftype @ '' { return self.'' @ name
                             @ ''; }''
                in if ty = ''_readonly''
                   then prefix @ ''.def_property_readonly('' @ DQ @ name @ DQ @ '', '' @ reader @ '', ''
                        @ DQ @ docs b @ DQ @ '');'' @ NL
                   else
                     (let writer = ''[]('' @ par @ ''& self, const '' @ ftype
                                   @ '' value) { self.'' @ name @ '' = value; }''
                      in prefix @ ''.def_property('' @ DQ @ name @ DQ @ '', '' @ reader @ '', ''
                         @ writer @ '', '' @ DQ @ docs b @ DQ @ '');'' @ NL))
             else prefix @ ''.def_'' @ ty @ ''('' @ DQ @ name @ DQ @ '', &'' @ qname @ '', ''
                  @ DQ @ docs b @ DQ @ '');'' @ NL)
      in [if is_array_like (ctype (cursor b)) then commented line else line])"

subsection \<open>Classes\<close>

text \<open>\<open>item.parent_name = cls\<close>.\<close>

definition with_parent_name :: "string \<Rightarrow> cursor_binder \<Rightarrow> cursor_binder" where
  "with_parent_name n b =
     CursorBinder (cursor b) (b_alias b) n (pname b) (bind_name b) (b_includes b)
       (grouped_binders b) (skip b) (src b) (opaque b) (macro b)"

text \<open>The name of the C++ variable of the class.\<close>

definition class_variable :: "'b Generator \<Rightarrow> cursor_binder \<Rightarrow> string" where
  "class_variable g b =
     (let source_name = (case python_names g (qualified_name b) of
                           Some n \<Rightarrow> n | None \<Rightarrow> python_name b)
      in if is_nested b then join ''_'' [''cls'', parent_python_name b, source_name]
         else join ''_'' [''cls'', source_name])"

text \<open>The holder annotation of the class and the holder type that its bases must have.\<close>

definition class_holder :: "'b Generator \<Rightarrow> cursor_binder \<Rightarrow> string \<times> string" where
  "class_holder g b =
     (if is_transient b
      then ('', opencascade::handle<'' @ qualified_name b @ ''>'', ''opencascade::handle'')
      else if needs_nodelete b \<or> qualified_name b \<in> nodelete g
      then ('', std::unique_ptr<'' @ qualified_name b @ '', py::nodelete>'', ''std::unique_ptr'')
      else ([], ''std::unique_ptr''))"

definition class_excluded_bases :: "'b Generator \<Rightarrow> cursor_binder \<Rightarrow> string list" where
  "class_excluded_bases g b =
     (case excluded_bases g (qualified_name b) of
        Some xs \<Rightarrow> xs
      | None \<Rightarrow> (case excluded_bases g (python_name b) of Some xs \<Rightarrow> xs | None \<Rightarrow> []))"

text \<open>
  \<open>t.get_declaration().holder_type\<close>. A type without declaration gives a cursor of kind
  \<open>NO_DECL_FOUND\<close>, which has no type spelling and no bases, so its holder type is
  \<open>std::unique_ptr\<close>.
\<close>

definition declaration_holder_type :: "ctype \<Rightarrow> string" where
  "declaration_holder_type t =
     (case get_declaration t of
        None \<Rightarrow> ''std::unique_ptr''
      | Some d \<Rightarrow> holder_type (new_binder d))"

definition base_holder_type :: "cursor_binder \<Rightarrow> string" where
  "base_holder_type base =
     (let holder1 = declaration_holder_type (ctype (cursor base));
          holder2 = declaration_holder_type (canonical (ctype (cursor base)))
      in if ''opencascade::handle'' \<in> set [holder1, holder2] then ''opencascade::handle''
         else ''std::unique_ptr'')"

text \<open>
  The loop over the base specifiers: the names for the base list of the registration, and
  the messages for the bases that are dropped for their holder type.
\<close>

fun class_bases ::
  "'b Generator \<Rightarrow> cursor_binder \<Rightarrow> string \<Rightarrow> string list \<Rightarrow> cursor_binder list
     \<Rightarrow> string list \<times> string list" where
  "class_bases g b holder_ty excluded [] = ([], [])"
| "class_bases g b holder_ty excluded (base # rest) =
     (let (base_names, log) = class_bases g b holder_ty excluded rest;
          name = type_spelling (ctype (cursor base))
      in if \<not> is_public base then (base_names, log)
         else if name \<in> set excluded \<or> name \<in> excluded_classes g then (base_names, log)
         else if holder_ty \<noteq> base_holder_type base
         then (base_names,
               (TAB @ ''Mismatched holder types: '' @ spelling b @ '' --> '' @ name @ NL) # log)
         else (name # base_names, log))"

text \<open>The \<open>py::class_\<close> line.\<close>

definition class_registration :: "'b Generator \<Rightarrow> cursor_binder \<Rightarrow> string list \<Rightarrow> string" where
  "class_registration g b base_names =
     (let qname = qualified_name b;
          bases_txt = (if base_names \<noteq> [] then '', '' @ join '', '' base_names else []);
          multi_base = (if length (bases b) > 1 \<and> length base_names < length (bases b)
                        then '', py::multiple_inheritance()'' else []);
          name_txt = (if is_class_template b then ''name.c_str()'' else DQ @ python_name b @ DQ);
          name_txt = (case python_names g qname of Some n \<Rightarrow> DQ @ n @ DQ | None \<Rightarrow> name_txt);
          par = (if is_nested b \<and> qname \<in> nested_classes g then ''cls_'' @ parent_python_name b
                     else ''mod'');
          local = (if is_class_template b \<or> parent_is_class_template b then '', local''
                   else if b_alias b \<noteq> None then '', py::module_local()'' else []);
          tname = (if contains qname ''::'' then ''typename '' @ qname else qname)
      in ''py::class_<'' @ tname @ fst (class_holder g b) @ bases_txt @ ''> '' @ class_variable g b
         @ ''('' @ par @ '', '' @ name_txt @ '', '' @ DQ @ docs b @ DQ @ multi_base @ local
         @ '');'' @ NL)"

text \<open>The constructor section.\<close>

definition default_ctor_line :: "cursor_binder \<Rightarrow> string \<Rightarrow> string" where
  "default_ctor_line b cls =
     (if has_unimplemented_methods b then ''// abstract virtual methods // '' else [])
     @ cls @ ''.def(py::init<>());'' @ NL"

definition class_ctors :: "env \<Rightarrow> 'b Generator \<Rightarrow> cursor_binder \<Rightarrow> string \<Rightarrow> string list" where
  "class_ctors ev g b cls =
     (let src_ctor =
            (if is_abstract b then []
             else
               (let src_ctor = concat (map (\<lambda>item. generate_ctor ev g (with_parent_name cls item))
                                           (filter is_public (ctors b)))
                in if src_ctor = [] \<and> needs_default_ctor b
                      \<and> qualified_name b \<notin> excluded_functions g
                   then [default_ctor_line b cls] else src_ctor))
      in if src_ctor \<noteq> [] then (NL @ ''// Constructors'' @ NL) # src_ctor else [])"

definition class_fields :: "env \<Rightarrow> 'b Generator \<Rightarrow> cursor_binder \<Rightarrow> string \<Rightarrow> string list" where
  "class_fields ev g b cls =
     (let src_fields = concat (map (\<lambda>item. generate_field ev g (with_parent_name cls item))
                                  (filter is_public (fields_of b)))
      in if src_fields \<noteq> [] then (NL @ ''// Fields'' @ NL) # src_fields else [])"

definition class_methods ::
  "env \<Rightarrow> 'b Generator \<Rightarrow> cursor_binder \<Rightarrow> string \<Rightarrow> string list result" where
  "class_methods ev g b cls =
     (case collect (map (\<lambda>item. generate_method ev g (with_parent_name cls item))
                        (filter is_public (methods b))) of
        (Inl e, log) \<Rightarrow> (Inl e, log)
      | (Inr src_methods, log) \<Rightarrow>
          (Inr (if src_methods \<noteq> [] then (NL @ ''// Methods'' @ NL) # src_methods else []), log))"

text \<open>
  The \<open>__iter__\<close> binding. The source adds the string to the list with \<open>+=\<close>, which
  appends its characters one by one.
\<close>

definition class_iter :: "cursor_binder \<Rightarrow> string \<Rightarrow> string list \<times> string list" where
  "class_iter b cls =
     (if is_maybe_iterable b
      then (map (\<lambda>c. [c])
              (cls @ ''.def('' @ DQ @ ''__iter__'' @ DQ @ '', [](const '' @ qualified_name b
               @ '' &self) { return py::make_iterator(self.begin(), self.end()); }, py::keep_alive<0, 1>());''
               @ NL),
            [TAB @ ''Adding __iter__ to '' @ qualified_name b @ NL])
      else ([], []))"

definition class_enums :: "env \<Rightarrow> 'b Generator \<Rightarrow> cursor_binder \<Rightarrow> string \<Rightarrow> string list" where
  "class_enums ev g b cls =
     (let src_enums = concat (map (\<lambda>item. generate_enum ev g (with_parent_name cls item))
                                 (filter is_public (enums b)))
      in if src_enums \<noteq> [] then (NL @ ''// Enums'' @ NL) # src_enums else [])"

definition class_before_type :: "'b Generator \<Rightarrow> string \<Rightarrow> string list" where
  "class_before_type g qname =
     (case before_type g qname of
        None \<Rightarrow> []
      | Some txts \<Rightarrow> (''// Before type'' @ NL) # map (\<lambda>txt. txt @ NL) txts @ [NL])"

definition class_after_type :: "'b Generator \<Rightarrow> string \<Rightarrow> string list" where
  "class_after_type g qname =
     (case after_type g qname of
        None \<Rightarrow> []
      | Some txts \<Rightarrow> (NL @ ''// After type'' @ NL) # concat (map (\<lambda>txt. [txt, NL]) txts))"

text \<open>
  The text of \<open>generate_class\<close> from the text before the type to the enumerations, and the
  messages written to the log on the way. An exception of \<open>generate_method\<close> ends it.
\<close>

definition class_head :: "env \<Rightarrow> 'b Generator \<Rightarrow> cursor_binder \<Rightarrow> string list result" where
  "class_head ev g b =
     (let cls = class_variable g b;
          (base_names, base_log) =
             class_bases g b (snd (class_holder g b)) (class_excluded_bases g b) (bases b)
      in case class_methods ev g b cls of
           (Inl e, method_log) \<Rightarrow> (Inl e, base_log @ method_log)
         | (Inr src_methods, method_log) \<Rightarrow>
             (let (src_iter, iter_log) = class_iter b cls
              in (Inr (class_before_type g (qualified_name b) @ [class_registration g b base_names]
                       @ class_ctors ev g b cls @ class_fields ev g b cls @ src_methods @ src_iter
                       @ class_enums ev g b cls),
                  base_log @ method_log @ iter_log)))"

text \<open>The nested classes that \<open>generate_class\<close> binds.\<close>

definition bound_nested_classes :: "'b Generator \<Rightarrow> cursor_binder \<Rightarrow> cursor list" where
  "bound_nested_classes g b =
     filter (\<lambda>n. qualified_name_of n \<in> nested_classes g \<and> is_public_cursor n)
            (nested_class_cursors (cursor b))"

lemma size_bound_nested_classes:
  "n \<in> set (bound_nested_classes g b) \<Longrightarrow> size n < size (cursor b)"
  by (auto simp: bound_nested_classes_def nested_class_cursors_def intro: size_children_of_kind)

text \<open>
  \<open>generate_class\<close>: the lines and the messages written to the log. A class with a macro
  gives the text of the macro, a class without children gives nothing; both return before
  the test for exclusion.
\<close>

function generate_class :: "env \<Rightarrow> 'b Generator \<Rightarrow> cursor_binder \<Rightarrow> string list result" where
  "generate_class ev g b =
     (case macro b of
        Some m \<Rightarrow> (Inr [MacroForHandle_generate m, NL], [])
      | None \<Rightarrow>
          if get_children (cursor b) = []
          then (Inr [], [TAB @ ''Not binding class: '' @ python_name b @ NL])
          else
            (case class_head ev g b of
               (Inl e, head_log) \<Rightarrow> (Inl e, head_log)
             | (Inr head, head_log) \<Rightarrow>
                 (case collect (map (\<lambda>n. generate_class ev g (new_binder n))
                                    (bound_nested_classes g b)) of
                    (Inl e, nested_log) \<Rightarrow> (Inl e, head_log @ nested_log)
                  | (Inr nested, nested_log) \<Rightarrow>
                      (let src_nested = (if bound_nested_classes g b = [] then []
                                         else (NL @ ''// Nested classes'' @ NL) # nested);
                           text = head @ src_nested @ class_after_type g (qualified_name b)
                       in (Inr (if is_excluded ev g b then block_comment text else text),
                           head_log @ nested_log)))))"
  by pat_completeness auto
termination
  by (relation "measure (\<lambda>(ev, g, b). size (cursor b))")
    (auto simp: new_binder_def size_bound_nested_classes)

declare generate_class.simps [simp del]

subsection \<open>Typedefs and class templates\<close>

text \<open>\<open>patch_typenames\<close> and \<open>generate_class_template\<close>.\<close>

definition patch_typenames :: "cursor_binder \<Rightarrow> string list \<Rightarrow> string list" where
  "patch_typenames b lines =
     map (\<lambda>line. replace line (qualified_spelling b @ ''::'')
                               (''typename '' @ qualified_name b @ ''::'')) lines"

definition generate_class_template ::
  "env \<Rightarrow> 'b Generator \<Rightarrow> cursor_binder \<Rightarrow> string list result" where
  "generate_class_template ev g b =
     (case generate_class ev g b of
        (Inl e, log) \<Rightarrow> (Inl e, log)
      | (Inr lines, log) \<Rightarrow> (Inr (patch_typenames b lines), log))"

text \<open>
  The binder of the declaration of the canonical type in \<open>generate_typedef2\<close>, after
  \<open>decl.alias = alias\<close> and \<open>decl.python_name = binder.spelling\<close>.
\<close>

definition typedef_class_binder :: "cursor_binder \<Rightarrow> cursor \<Rightarrow> cursor_binder" where
  "typedef_class_binder b d =
     CursorBinder d (b_alias b) ''mod'' (Some (spelling b)) None [] [] False [] [] None"

text \<open>
  \<open>generate_typedef2\<close>: the lines, the list of templates to include (\<open>None\<close> for an
  alias) and the opaque definitions, with the messages written to the log.
\<close>

definition generate_typedef2 ::
  "env \<Rightarrow> 'b Generator \<Rightarrow> cursor_binder
     \<Rightarrow> (string list \<times> string list option \<times> string list) result" where
  "generate_typedef2 ev g b =
     (case (case b_alias b of
              None \<Rightarrow> None
            | Some a \<Rightarrow> if module_name_of b = module_name_of a then Some a else None) of
        Some a \<Rightarrow>
          (Inr ([''if (py::hasattr(mod, '' @ DQ @ python_name a @ DQ @ '')) {'' @ NL,
                 TAB @ ''mod.attr('' @ DQ @ python_name b @ DQ @ '') = mod.attr('' @ DQ
                   @ python_name a @ DQ @ '');'' @ NL,
                 ''}'' @ NL], None, []), [])
      | None \<Rightarrow>
          (let ty = canonical (ctype (cursor b));
               decl = get_declaration ty;
               is_template = (case decl of
                                None \<Rightarrow> False
                              | Some d \<Rightarrow> (case get_specialization d of
                                            None \<Rightarrow> False
                                          | Some t \<Rightarrow> c_kind (cdata t) = CLASS_TEMPLATE));
               local = (if b_alias b \<noteq> None then '', py::module_local()''
                        else '', py::module_local(false)'');
               not_bound = (Inr ([], Some [], []),
                            [TAB @ ''Not binding typedef: '' @ python_name b @ NL])
           in if is_record ty \<and> is_template then
                (if startswith (type_spelling ty) ''std::vector''
                 then (Inr ([''py::bind_vector<'' @ type_spelling ty @ ''>('' @ parent_name b @ '', ''
                             @ DQ @ python_name b @ DQ @ '');'' @ NL],
                            Some [], [''PYBIND11_MAKE_OPAQUE('' @ type_spelling ty @ '')'' @ NL]), [])
                 else (Inr ([''bind_'' @ type_spelling ty @ ''('' @ parent_name b @ '', '' @ DQ
                             @ python_name b @ DQ @ local @ '');'' @ NL],
                            Some [''bind_'' @ (case decl of None \<Rightarrow> [] | Some d \<Rightarrow> c_spelling (cdata d))],
                            []), []))
              else
                (case (if is_record ty then decl else None) of
                   Some d \<Rightarrow>
                     if c_kind (cdata d) = CLASS_DECL \<or> c_kind (cdata d) = STRUCT_DECL
                     then (case generate_class ev g (typedef_class_binder b d) of
                             (Inl e, log) \<Rightarrow> (Inl e, log)
                           | (Inr lines, log) \<Rightarrow> (Inr (lines, Some [], []), log))
                     else not_bound
                 | None \<Rightarrow> not_bound)))"

subsection \<open>A small translation unit\<close>

text \<open>
  Cursors as libclang gives them for

  \<^verbatim>\<open>void scale(int factor = 2);\<close>

  \<^verbatim>\<open>struct Foo { Foo(int a, int b = 0); void Move(int dx, int dy = 0) const; };\<close>

  in the header \<open>Foo.hxx\<close>, with no rule tables set, no operator names, an \<open>fnmatch\<close>
  that matches nothing, a digest without collisions and sets iterated in the order of
  insertion.
\<close>

definition decl_data :: "CursorKind \<Rightarrow> string \<Rightarrow> string \<Rightarrow> cursor_data" where
  "decl_data k s d =
     \<lparr>c_kind = k, c_spelling = s, c_displayname = d, c_access_specifier = PUBLIC,
      c_file = Some ''Foo.hxx'', c_brief_comment = None, c_tokens = [],
      c_is_definition = True, c_is_bitfield = False, c_is_pure_virtual_method = False,
      c_is_abstract_record = False, c_is_const_method = False, c_is_static_method = False,
      c_is_move_constructor = False\<rparr>"

definition builtin_type :: "string \<Rightarrow> ctype" where
  "builtin_type s = Type s OTHER_TYPE_KIND False None None None"

definition param_cursor :: "cursor option \<Rightarrow> string \<Rightarrow> string list \<Rightarrow> cursor" where
  "param_cursor p name toks =
     Cursor ((decl_data PARM_DECL name name)\<lparr>c_tokens := toks\<rparr>) p []
       (builtin_type ''int'') invalid_type invalid_type None None"




definition Foo_type :: ctype where
  "Foo_type = Type ''Foo'' RECORD False None None None"

definition Foo_parent :: cursor where
  "Foo_parent =
     Cursor (decl_data STRUCT_DECL ''Foo'' ''Foo'') None [] Foo_type invalid_type invalid_type
       None None"

definition Foo_ctor :: cursor where
  "Foo_ctor =
     Cursor (decl_data CONSTRUCTOR ''Foo'' ''Foo(int, int)'') (Some Foo_parent)
       [param_cursor None ''a'' [''int'', ''a''], param_cursor None ''b'' [''int'', ''b'', ''='', ''0'']]
       (Type ''void (int, int)'' FUNCTIONPROTO False None None None) (builtin_type ''void'')
       invalid_type None None"


text \<open>
  \<^verbatim>\<open>struct Plain { int x; };\<close>

  \<^verbatim>\<open>class Keeper : public Plain { ~Keeper(); public: int y; };\<close>

  \<^verbatim>\<open>class Shape : public Standard_Transient, public Plain { public: int y; };\<close>

  The destructor of \<open>Keeper\<close> is private.
\<close>

definition field_cursor :: "cursor option \<Rightarrow> string \<Rightarrow> cursor" where
  "field_cursor p name =
     Cursor (decl_data FIELD_DECL name name) p [] (builtin_type ''int'') invalid_type invalid_type
       None None"

definition class_cursor :: "string \<Rightarrow> cursor list \<Rightarrow> cursor" where
  "class_cursor name members =
     Cursor (decl_data CLASS_DECL name name) None members (Type name RECORD False None None None)
       invalid_type invalid_type None None"

definition base_specifier :: "string \<Rightarrow> cursor \<Rightarrow> cursor" where
  "base_specifier name decl =
     Cursor (decl_data CXX_BASE_SPECIFIER name name) None []
       (Type name RECORD False None None (Some decl)) invalid_type invalid_type (Some decl) None"

definition Plain_cursor :: cursor where
  "Plain_cursor = class_cursor ''Plain'' [field_cursor (Some (class_cursor ''Plain'' [])) ''x'']"

definition Standard_Transient_cursor :: cursor where
  "Standard_Transient_cursor =
     class_cursor ''Standard_Transient''
       [field_cursor (Some (class_cursor ''Standard_Transient'' [])) ''count'']"

definition Keeper_cursor :: cursor where
  "Keeper_cursor =
     class_cursor ''Keeper''
       [base_specifier ''Plain'' Plain_cursor,
        Cursor ((decl_data DESTRUCTOR ''~Keeper'' ''~Keeper()'')\<lparr>c_access_specifier := PRIVATE\<rparr>)
          (Some (class_cursor ''Keeper'' [])) [] (Type ''void ()'' FUNCTIONPROTO False None None None)
          (builtin_type ''void'') invalid_type None None,
        field_cursor (Some (class_cursor ''Keeper'' [])) ''y'']"

definition Shape_cursor :: cursor where
  "Shape_cursor =
     class_cursor ''Shape''
       [base_specifier ''Standard_Transient'' Standard_Transient_cursor,
        base_specifier ''Plain'' Plain_cursor,
        field_cursor (Some (class_cursor ''Shape'' [])) ''y'']"

text \<open>
  \<^verbatim>\<open>class Registry { ~Registry(); public: int size; };\<close> with a private destructor and no
  declared constructor.
\<close>

definition Registry_cursor :: cursor where
  "Registry_cursor =
     class_cursor ''Registry''
       [Cursor ((decl_data DESTRUCTOR ''~Registry'' ''~Registry()'')\<lparr>c_access_specifier := PRIVATE\<rparr>)
          (Some (class_cursor ''Registry'' [])) [] (Type ''void ()'' FUNCTIONPROTO False None None None)
          (builtin_type ''void'') invalid_type None None,
        field_cursor (Some (class_cursor ''Registry'' [])) ''size'']"

text \<open>
  \<^verbatim>\<open>enum Color { Red };\<close>, excluded by \<open>-enum Color\<close>; and the class
  \<open>TColStd_HArray1OfReal\<close> that the macro \<open>DEFINE_HARRAY1\<close> defines, excluded by
  \<open>-class TColStd_HArray1OfReal\<close>.
\<close>

definition Color_cursor :: cursor where
  "Color_cursor =
     Cursor (decl_data ENUM_DECL ''Color'' ''Color'') None
       [Cursor (decl_data ENUM_CONSTANT_DECL ''Red'' ''Red'')
          (Some (Cursor (decl_data ENUM_DECL ''Color'' ''Color'') None []
                   (Type ''Color'' OTHER_TYPE_KIND False None None None) invalid_type invalid_type
                   None None))
          [] (Type ''Color'' OTHER_TYPE_KIND False None None None) invalid_type invalid_type
          None None]
       (Type ''Color'' OTHER_TYPE_KIND False None None None) invalid_type invalid_type None None"

definition g_excluded :: "unit Generator" where
  "g_excluded = Generator_init\<lparr>excluded_enums := {''Color''},
                                excluded_classes := {''TColStd_HArray1OfReal''}\<rparr>"

definition HArray1_binder :: cursor_binder where
  "HArray1_binder =
     CursorBinder
       (class_cursor ''TColStd_HArray1OfReal''
          [field_cursor (Some (class_cursor ''TColStd_HArray1OfReal'' [])) ''myArray''])
       None ''mod'' None None [] [] False [] []
       (Some \<lparr>macro_name = DEFINE_HARRAY1, type1 = ''TColStd_HArray1OfReal'',
               type2 = ''TColStd_Array1OfReal''\<rparr>)"

section \<open>Properties of output emission\<close>









section \<open>Properties of the module registry\<close>

lemma slice_to_last_nth:
  assumes "x \<in> set (slice_to_last xs i)"
  shows "\<exists>j. i \<le> j \<and> Suc j < length xs \<and> x = xs ! j"
proof -
  from assms obtain k where k: "k < length (drop i (butlast xs))" "x = drop i (butlast xs) ! k"
    unfolding slice_to_last_def in_set_conv_nth by blast
  then have lt: "i + k < length (butlast xs)" by simp
  then have "x = butlast xs ! (i + k)" using k by simp
  also have "\<dots> = xs ! (i + k)" using lt by (rule nth_butlast)
  finally have "x = xs ! (i + k)" .
  moreover from lt have "Suc (i + k) < length xs" by simp
  ultimately show ?thesis by (intro exI [of _ "i + k"]) simp
qed

text \<open>
  C9. Every pair \<open>(mod1, mod2)\<close> that \<open>check_circular\<close> runs through has \<open>mod1\<close> at an index
  \<open>i\<close> and \<open>mod2\<close> at an index \<open>j\<close> with \<open>i < j < len(mods) - 1\<close>: the last index is
  never reached, so (the registered modules being pairwise different) the last module is in
  no tested pair.
\<close>

theorem check_circular_skips_last:
  assumes "(a, b) \<in> set (check_circular_pairs ms)"
  shows "(\<exists>i j. i < j \<and> Suc j < length ms \<and> a = ms ! i \<and> b = ms ! j)
         \<and> (distinct ms \<longrightarrow> a \<noteq> last ms \<and> b \<noteq> last ms)"
proof -
  from assms obtain i where i: "(i, a) \<in> set (enumerate 0 ms)"
      and b: "b \<in> set (slice_to_last ms (i + 1))"
    unfolding check_circular_pairs_def by auto
  from i have il: "i < length ms" and a: "a = ms ! i"
    by (simp_all add: in_set_enumerate_eq)
  from slice_to_last_nth [OF b] obtain j where j: "i + 1 \<le> j" "Suc j < length ms" "b = ms ! j"
    by blast
  have idx: "\<exists>i j. i < j \<and> Suc j < length ms \<and> a = ms ! i \<and> b = ms ! j"
    using a j by (intro exI [of _ i] exI [of _ j]) simp
  have "a \<noteq> last ms \<and> b \<noteq> last ms" if d: "distinct ms"
  proof -
    have ne: "ms \<noteq> []" using il by auto
    then have l: "last ms = ms ! (length ms - 1)" by (rule last_conv_nth)
    have "i < length ms - 1" using j by simp
    then have "ms ! i \<noteq> ms ! (length ms - 1)"
      using d il by (simp add: nth_eq_iff_index_eq)
    moreover have "ms ! j \<noteq> ms ! (length ms - 1)"
      using d j by (simp add: nth_eq_iff_index_eq)
    ultimately show ?thesis using a j l by simp
  qed
  with idx show ?thesis by blast
qed

theorem check_circular_skips_last_witness:
  "(''A'', ''B'') \<in> set (check_circular_pairs [''A'', ''B'', ''C''])
   \<and> check_circular_pairs [''A'', ''B'', ''C''] = [(''A'', ''B'')]
   \<and> ''A'' \<noteq> last [''A'', ''B'', ''C''] \<and> ''B'' \<noteq> last [''A'', ''B'', ''C'']"
  using check_circular_skips_last [of "''A''" "''B''" "[''A'', ''B'', ''C'']"]
  by (simp add: check_circular_pairs_def slice_to_last_def)

text \<open>
  C2. A registry in which \<open>A\<close> imports \<open>Ext\<close> (a module of another package, not an available
  module) and \<open>B\<close>, and \<open>B\<close> imports \<open>A\<close>: each module is in the other's import list, and
  \<open>is_circular\<close> answers \<open>False\<close>, because the search of \<open>A\<close>'s imports stops at \<open>Ext\<close>.
\<close>

theorem is_circular_external_import:
  "fst (is_circular
         (Generator_init\<lparr>available_mods := {''A'', ''B''},
            mods := [(''A'', (new_Module ''A'')\<lparr>mod_imports := [''Ext'', ''B'']\<rparr>),
                     (''B'', (new_Module ''B'')\<lparr>mod_imports := [''A'']\<rparr>)]\<rparr>)
         ((new_Module ''A'')\<lparr>mod_imports := [''Ext'', ''B'']\<rparr>)
         ((new_Module ''B'')\<lparr>mod_imports := [''A'']\<rparr>)) = False
   \<and> fst (is_dependent
         (Generator_init\<lparr>available_mods := {''A'', ''B''},
            mods := [(''A'', (new_Module ''A'')\<lparr>mod_imports := [''Ext'', ''B'']\<rparr>),
                     (''B'', (new_Module ''B'')\<lparr>mod_imports := [''A'']\<rparr>)]\<rparr>)
         ((new_Module ''B'')\<lparr>mod_imports := [''A'']\<rparr>)
         ((new_Module ''A'')\<lparr>mod_imports := [''Ext'', ''B'']\<rparr>)) = True"
  by (simp add: is_circular_def is_dependent_def Generator_init_def new_Module_def get_module_def)

section \<open>Properties of the rule configuration\<close>














section \<open>Properties of source generation\<close>

subsection \<open>Default values\<close>








subsection \<open>Functions, constructors and methods\<close>


















end
